theory Spec2Isabelle
  imports Complex_Main "HOL-Library.AList"
begin

section \<open>JavaScript values\<close>

text \<open>
  A JavaScript string is a sequence of UTF-16 code units. A code unit is modelled by its
  number; the functions below treat every number above 65535 like any other unit that
  is neither a letter, a digit, a quote nor white space, so a statement about every
  \<open>jsstring\<close> covers every JavaScript string. String literals of the source are ASCII
  and are written \<open>utf16 ''...''\<close>.
\<close>

type_synonym jsstring = "nat list"

definition utf16 :: "string \<Rightarrow> jsstring" where
  "utf16 s = map of_char s"

text \<open>
  A JavaScript number that the program can produce or receive: a finite value, the two
  infinities, negative zero, or NaN.
\<close>

datatype number = NaN | Finite rat | NegZero | Infinity | NegInfinity

datatype jsval = Undefined | Num number | Str jsstring

text \<open>
  An object with identifier keys: its properties in order, a key looked up from the
  front.
\<close>

type_synonym object = "(string \<times> jsval) list"

definition get_prop :: "object \<Rightarrow> string \<Rightarrow> jsval" where
  "get_prop obj k = (case map_of obj k of None \<Rightarrow> Undefined | Some v \<Rightarrow> v)"

section \<open>Regular expressions of the dispatcher\<close>

text \<open>
  White space as \<open>\s\<close> and \<open>parseInt\<close> read it: the WhiteSpace and LineTerminator
  code units of ECMAScript.
\<close>

definition is_white_space :: "nat \<Rightarrow> bool" where
  "is_white_space c =
     (c = 9 \<or> c = 10 \<or> c = 11 \<or> c = 12 \<or> c = 13 \<or> c = 32 \<or> c = 160 \<or> c = 5760
      \<or> (8192 \<le> c \<and> c \<le> 8202) \<or> c = 8232 \<or> c = 8233 \<or> c = 8239 \<or> c = 8287
      \<or> c = 12288 \<or> c = 65279)"

definition is_digit :: "nat \<Rightarrow> bool" where
  "is_digit c = (48 \<le> c \<and> c \<le> 57)"

text \<open>
  The flag \<open>i\<close> compares canonicalized code units. Without the flag \<open>u\<close> a unit
  from 128 on never canonicalizes to an ASCII unit, and every literal of the five
  patterns is ASCII, so only the ASCII letters need folding.
\<close>

definition canonicalize :: "nat \<Rightarrow> nat" where
  "canonicalize c = (if 97 \<le> c \<and> c \<le> 122 then c - 32 else c)"

datatype atom =
    Lit char
  | Space
  | Digit
  | OneOf "char list"
  | NoneOf "char list"

fun atom_ok :: "atom \<Rightarrow> nat \<Rightarrow> bool" where
  "atom_ok (Lit k) c = (canonicalize c = canonicalize (of_char k))"
| "atom_ok Space c = is_white_space c"
| "atom_ok Digit c = is_digit c"
| "atom_ok (OneOf ks) c = (canonicalize c \<in> set (map (canonicalize \<circ> of_char) ks))"
| "atom_ok (NoneOf ks) c = (canonicalize c \<notin> set (map (canonicalize \<circ> of_char) ks))"

text \<open>
  The constructs the five patterns use: a single unit, \<open>+\<close> on a single unit (greedy),
  sequence, alternation, a greedy \<open>?\<close>, and a numbered capture group.
\<close>

datatype rx =
    Eps
  | Atom atom
  | Plus atom
  | Seq rx rx
  | Alt rx rx
  | Opt rx
  | Group nat rx

type_synonym captures = "nat \<Rightarrow> jsstring option"

text \<open>
  The backtracking matcher. \<open>rx_match r s c\<close> lists, in the order in which the
  engine tries them, the ways \<open>r\<close> matches a prefix of \<open>s\<close>: the input left over and
  the captures. The engine takes the first way that lets the rest of the pattern match.
\<close>

fun rx_match :: "rx \<Rightarrow> jsstring \<Rightarrow> captures \<Rightarrow> (jsstring \<times> captures) list" where
  "rx_match Eps s c = [(s, c)]"
| "rx_match (Atom a) s c =
     (case s of [] \<Rightarrow> [] | x # xs \<Rightarrow> if atom_ok a x then [(xs, c)] else [])"
| "rx_match (Plus a) s c =
     map (\<lambda>k. (drop k s, c)) (rev [1 ..< Suc (length (takeWhile (atom_ok a) s))])"
| "rx_match (Seq r1 r2) s c =
     concat (map (\<lambda>m. rx_match r2 (fst m) (snd m)) (rx_match r1 s c))"
| "rx_match (Alt r1 r2) s c = rx_match r1 s c @ rx_match r2 s c"
| "rx_match (Opt r) s c = rx_match r s c @ [(s, c)]"
| "rx_match (Group n r) s c =
     map (\<lambda>m. (fst m, (snd m)(n \<mapsto> take (length s - length (fst m)) s)))
       (rx_match r s c)"

text \<open>
  \<open>RegExp.prototype.exec\<close> without the flags \<open>g\<close> and \<open>y\<close>: the first start
  index, from 0, at which the pattern matches; \<open>None\<close> is JavaScript's \<open>null\<close>.
\<close>

fun rx_exec :: "rx \<Rightarrow> jsstring \<Rightarrow> captures option" where
  "rx_exec r [] = (case rx_match r [] (\<lambda>n. None) of [] \<Rightarrow> None | m # ms \<Rightarrow> Some (snd m))"
| "rx_exec r (x # xs) =
     (case rx_match r (x # xs) (\<lambda>n. None) of [] \<Rightarrow> rx_exec r xs | m # ms \<Rightarrow> Some (snd m))"

definition word :: "string \<Rightarrow> rx" where
  "word ks = foldr (\<lambda>k r. Seq (Atom (Lit k)) r) ks Eps"

definition seqs :: "rx list \<Rightarrow> rx" where
  "seqs rs = foldr Seq rs Eps"

text \<open>\<^verbatim>\<open>/(?:match|game)\s+(?:id\s+)?(\d+)/i\<close>\<close>

definition matchIdPattern :: rx where
  "matchIdPattern =
     seqs [Alt (word ''match'') (word ''game''), Plus Space,
           Opt (seqs [word ''id'', Plus Space]), Group 1 (Plus Digit)]"

text \<open>\<^verbatim>\<open>/(?:player|user)\s+(?:named\s+)?[""']([^""']+)[""']/i\<close>\<close>

definition playerNamePattern :: rx where
  "playerNamePattern =
     seqs [Alt (word ''player'') (word ''user''), Plus Space,
           Opt (seqs [word ''named'', Plus Space]),
           Atom (OneOf [CHR 0x22, CHR 0x22, CHR 0x27]),
           Group 1 (Plus (NoneOf [CHR 0x22, CHR 0x22, CHR 0x27])),
           Atom (OneOf [CHR 0x22, CHR 0x22, CHR 0x27])]"

text \<open>\<^verbatim>\<open>/(?:player|user)\s+(?:id\s+)?(\d+)/i\<close>\<close>

definition playerIdPattern :: rx where
  "playerIdPattern =
     seqs [Alt (word ''player'') (word ''user''), Plus Space,
           Opt (seqs [word ''id'', Plus Space]), Group 1 (Plus Digit)]"

text \<open>\<^verbatim>\<open>/recent\s+matches?\s+(?:for\s+)?(?:player\s+)?(?:id\s+)?(\d+)/i\<close>\<close>

definition recentMatchesPattern :: rx where
  "recentMatchesPattern =
     seqs [word ''recent'', Plus Space, word ''matche'', Opt (word ''s''), Plus Space,
           Opt (seqs [word ''for'', Plus Space]),
           Opt (seqs [word ''player'', Plus Space]),
           Opt (seqs [word ''id'', Plus Space]), Group 1 (Plus Digit)]"

text \<open>\<^verbatim>\<open>/(?:heroes?\s+(?:for\s+)?(?:player\s+)?(?:id\s+)?(\d+)|player\s+(\d+)\s+heroes?)/i\<close>\<close>

definition playerHeroesPattern :: rx where
  "playerHeroesPattern =
     Alt (seqs [word ''heroe'', Opt (word ''s''), Plus Space,
                Opt (seqs [word ''for'', Plus Space]),
                Opt (seqs [word ''player'', Plus Space]),
                Opt (seqs [word ''id'', Plus Space]), Group 1 (Plus Digit)])
         (seqs [word ''player'', Plus Space, Group 2 (Plus Digit), Plus Space,
                word ''heroe'', Opt (word ''s'')])"

section \<open>parseInt\<close>

fun bitlen :: "nat \<Rightarrow> nat" where
  "bitlen n = (if n = 0 then 0 else Suc (bitlen (n div 2)))"

declare bitlen.simps [simp del]

text \<open>
  The float64 nearest to a natural number, ties to even; \<open>None\<close> when it is beyond
  the largest finite float64. Below \<open>2 ^ 53\<close> every natural number is a float64.
\<close>

definition round_float64 :: "nat \<Rightarrow> nat option" where
  "round_float64 n =
     (if n < 2 ^ 53 then Some n
      else let e = bitlen n - 53; q = n div 2 ^ e; r = n mod 2 ^ e;
               q' = (if 2 ^ e < 2 * r \<or> (2 * r = 2 ^ e \<and> odd q) then q + 1 else q)
           in if 2 ^ 1024 \<le> q' * 2 ^ e then None else Some (q' * 2 ^ e))"

definition digit_value :: "nat \<Rightarrow> nat option" where
  "digit_value c =
     (if 48 \<le> c \<and> c \<le> 57 then Some (c - 48)
      else if 97 \<le> c \<and> c \<le> 122 then Some (c - 87)
      else if 65 \<le> c \<and> c \<le> 90 then Some (c - 55)
      else None)"

definition is_radix_digit :: "nat \<Rightarrow> nat \<Rightarrow> bool" where
  "is_radix_digit R c = (case digit_value c of None \<Rightarrow> False | Some d \<Rightarrow> d < R)"

definition radix_value :: "nat \<Rightarrow> jsstring \<Rightarrow> nat" where
  "radix_value R Z = foldl (\<lambda>acc c. acc * R + (case digit_value c of None \<Rightarrow> 0 | Some d \<Rightarrow> d)) 0 Z"

text \<open>
  \<open>parseInt(string)\<close> with no radix argument: leading white space and one sign are
  skipped, a prefix \<open>0x\<close> selects radix 16, the longest run of digits is read, and its
  value is rounded to a float64. (The standard lets an engine approximate after the 20th
  significant digit; the model rounds the exact value, as V8 does.)
\<close>

definition parseInt :: "jsstring \<Rightarrow> number" where
  "parseInt inputString =
     (let S = dropWhile is_white_space inputString;
          negative = (case S of [] \<Rightarrow> False | c # _ \<Rightarrow> c = 45);
          S1 = (case S of [] \<Rightarrow> [] | c # cs \<Rightarrow> if c = 43 \<or> c = 45 then cs else S);
          hex = (case S1 of a # b # _ \<Rightarrow> a = 48 \<and> (b = 120 \<or> b = 88) | _ \<Rightarrow> False);
          R = (if hex then 16 else 10);
          S2 = (if hex then drop 2 S1 else S1);
          Z = takeWhile (is_radix_digit R) S2
      in if Z = [] then NaN
         else if radix_value R Z = 0 then (if negative then NegZero else Finite 0)
         else case round_float64 (radix_value R Z) of
                None \<Rightarrow> if negative then NegInfinity else Infinity
              | Some v \<Rightarrow> Finite (if negative then - of_nat v else of_nat v))"

section \<open>The query dispatcher\<close>

record dispatch =
  type :: jsstring
  params :: object

text \<open>A capture group read from the match array: \<open>undefined\<close> when it took no part.\<close>

definition group_val :: "jsstring option \<Rightarrow> jsval" where
  "group_val g = (case g of None \<Rightarrow> Undefined | Some s \<Rightarrow> Str s)"

text \<open>\<open>ToString\<close> of what a match array holds, as \<open>parseInt\<close> applies it.\<close>

definition group_string :: "jsstring option \<Rightarrow> jsstring" where
  "group_string g = (case g of None \<Rightarrow> utf16 ''undefined'' | Some s \<Rightarrow> s)"

text \<open>\<open>a || b\<close> on two entries of a match array: the empty string and \<open>undefined\<close> are falsy.\<close>

definition group_or :: "jsstring option \<Rightarrow> jsstring option \<Rightarrow> jsstring option" where
  "group_or a b = (case a of None \<Rightarrow> b | Some s \<Rightarrow> if s = [] then b else Some s)"

definition parseNaturalQuery :: "jsstring \<Rightarrow> dispatch" where
  "parseNaturalQuery query =
     (case rx_exec matchIdPattern query of
        Some m \<Rightarrow>
          \<lparr>type = utf16 ''get_match'',
           params = [(''match_id'', Num (parseInt (group_string (m 1))))]\<rparr>
      | None \<Rightarrow>
     (case rx_exec playerNamePattern query of
        Some m \<Rightarrow>
          \<lparr>type = utf16 ''search_players'', params = [(''query'', group_val (m 1))]\<rparr>
      | None \<Rightarrow>
     (case rx_exec playerIdPattern query of
        Some m \<Rightarrow>
          \<lparr>type = utf16 ''get_player'',
           params = [(''account_id'', Num (parseInt (group_string (m 1))))]\<rparr>
      | None \<Rightarrow>
     (case rx_exec recentMatchesPattern query of
        Some m \<Rightarrow>
          \<lparr>type = utf16 ''get_player_recent_matches'',
           params = [(''account_id'', Num (parseInt (group_string (m 1))))]\<rparr>
      | None \<Rightarrow>
     (case rx_exec playerHeroesPattern query of
        Some m \<Rightarrow>
          \<lparr>type = utf16 ''get_player_heroes'',
           params = [(''account_id'', Num (parseInt (group_string (group_or (m 1) (m 2)))))]\<rparr>
      | None \<Rightarrow>
          \<lparr>type = utf16 ''search'', params = [(''query'', Str query)]\<rparr>)))))"

section \<open>Errors\<close>

datatype json =
    JNull
  | JBool bool
  | JNum number
  | JStr jsstring
  | JArr "json list"
  | JObj "(jsstring \<times> json) list"

text \<open>What axios resolves with, and the error it rejects with.\<close>

record axios_response =
  status :: nat
  data :: json

record axios_error =
  err_code :: "jsstring option"
  err_message :: jsstring
  err_response :: "axios_response option"

text \<open>An issue of a \<open>ZodError\<close>: the path, the expected and the received type.\<close>

datatype zod_issue = InvalidType "string list" string string

text \<open>
  An error that is neither a \<open>ZodError\<close> nor an \<open>MCPError\<close>: an \<open>Error\<close> with
  its message, or a thrown value that is no \<open>Error\<close> at all.
\<close>

datatype other_error = PlainError jsstring | NonError jsval

text \<open>
  The \<open>details\<close> objects the program builds: \<open>{zodError}\<close>, \<open>{code, response,
  originalError}\<close>, and \<open>{originalError}\<close> around an axios error or another error.
\<close>

datatype details =
    ZodDetails "zod_issue list"
  | ApiDetails "jsstring option" "json option" axios_error
  | TimeoutDetails axios_error
  | OriginalError other_error

record MCPError =
  name :: jsstring
  message :: jsstring
  code :: jsstring
  statusCode :: nat
  details :: "details option"

definition new_MCPError :: "jsstring \<Rightarrow> jsstring \<Rightarrow> nat \<Rightarrow> details option \<Rightarrow> MCPError" where
  "new_MCPError msg c sc d =
     \<lparr>name = utf16 ''MCPError'', message = msg, code = c, statusCode = sc, details = d\<rparr>"

definition new_ValidationError :: "jsstring \<Rightarrow> details option \<Rightarrow> MCPError" where
  "new_ValidationError msg d =
     (new_MCPError msg (utf16 ''VALIDATION_ERROR'') 400 d)\<lparr>name := utf16 ''ValidationError''\<rparr>"

definition new_APIError :: "jsstring \<Rightarrow> nat \<Rightarrow> details option \<Rightarrow> MCPError" where
  "new_APIError msg sc d =
     (new_MCPError msg (utf16 ''API_ERROR'') sc d)\<lparr>name := utf16 ''APIError''\<rparr>"

definition new_TimeoutError :: "jsstring \<Rightarrow> details option \<Rightarrow> MCPError" where
  "new_TimeoutError msg d =
     (new_MCPError msg (utf16 ''TIMEOUT_ERROR'') 408 d)\<lparr>name := utf16 ''TimeoutError''\<rparr>"

datatype thrown = ZodError "zod_issue list" | MCP MCPError | Other other_error

section \<open>The runtime and the upstream API\<close>

text \<open>
  What the program takes from outside: the conversion of a number to a string,
  \<open>JSON.stringify(_, null, 2)\<close> on upstream data and on a details object, the outcome
  of \<open>axios.get\<close> for a URL, query parameters, timeout and \<open>User-Agent\<close> header
  (\<open>Inl\<close> is a rejection), and the process environment.
\<close>

record host =
  number_to_string :: "number \<Rightarrow> jsstring"
  stringify_json :: "json \<Rightarrow> jsstring"
  stringify_details :: "details \<Rightarrow> jsstring"
  axios_get :: "jsstring \<Rightarrow> object \<Rightarrow> number \<Rightarrow> jsstring \<Rightarrow> axios_error + axios_response"
  env :: "string \<Rightarrow> jsstring option"

text \<open>A value inside a template literal.\<close>

definition to_string :: "host \<Rightarrow> jsval \<Rightarrow> jsstring" where
  "to_string h v =
     (case v of Undefined \<Rightarrow> utf16 ''undefined'' | Num n \<Rightarrow> number_to_string h n | Str s \<Rightarrow> s)"

text \<open>\<open>a || b\<close> on an environment variable: unset and empty are falsy.\<close>

definition or_else :: "jsstring option \<Rightarrow> jsstring \<Rightarrow> jsstring" where
  "or_else a b = (case a of None \<Rightarrow> b | Some s \<Rightarrow> if s = [] then b else s)"

record get_request =
  req_url :: jsstring
  req_params :: object
  req_timeout :: number
  req_user_agent :: jsstring

record tool_execution =
  toolName :: jsstring
  arguments :: "json option"
  success :: bool
  error :: "MCPError option"

text \<open>
  The state the program changes: the objects on the heap that are passed by reference,
  the requests \<open>axios.get\<close> was called with, and the tool execution records given to
  the logger (without their durations), oldest first. The logger's debug and API-call
  entries are not kept; the logger and \<open>JSON.stringify\<close> are taken not to throw.
\<close>

record state =
  heap :: "nat \<Rightarrow> object option"
  next_ref :: nat
  requests :: "get_request list"
  tool_log :: "tool_execution list"

definition alloc :: "object \<Rightarrow> state \<Rightarrow> nat \<times> state" where
  "alloc obj st =
     (next_ref st, st\<lparr>heap := (heap st)(next_ref st \<mapsto> obj), next_ref := Suc (next_ref st)\<rparr>)"

definition object_at :: "state \<Rightarrow> nat \<Rightarrow> object" where
  "object_at st a = (case heap st a of None \<Rightarrow> [] | Some obj \<Rightarrow> obj)"

text \<open>\<open>ref.k = v\<close> on the object a reference points to.\<close>

definition assign_prop :: "nat \<Rightarrow> string \<Rightarrow> jsval \<Rightarrow> state \<Rightarrow> state" where
  "assign_prop a k v st = st\<lparr>heap := (heap st)(a \<mapsto> AList.update k v (object_at st a))\<rparr>"

section \<open>The API client\<close>

record OpenDotaClient =
  baseURL :: jsstring
  timeout :: number
  apiKey :: "jsstring option"
  userAgent :: jsstring

definition new_OpenDotaClient :: "host \<Rightarrow> OpenDotaClient" where
  "new_OpenDotaClient h =
     \<lparr>baseURL = or_else (env h ''OPENDOTA_BASE_URL'') (utf16 ''https://api.opendota.com/api''),
      timeout = parseInt (or_else (env h ''OPENDOTA_TIMEOUT'') (utf16 ''30000'')),
      apiKey = env h ''OPENDOTA_API_KEY'',
      userAgent = or_else (env h ''USER_AGENT'') (utf16 ''OpenDota-MCP-Server/1.0.0'')\<rparr>"

text \<open>\<open>String.prototype.includes\<close>.\<close>

fun starts_with :: "jsstring \<Rightarrow> jsstring \<Rightarrow> bool" where
  "starts_with s [] = True"
| "starts_with [] (y # ys) = False"
| "starts_with (x # xs) (y # ys) = (x = y \<and> starts_with xs ys)"

fun includes_str :: "jsstring \<Rightarrow> jsstring \<Rightarrow> bool" where
  "includes_str [] t = (t = [])"
| "includes_str (x # xs) t = (starts_with (x # xs) t \<or> includes_str xs t)"

text \<open>\<open>statusCode || 500\<close>: a missing status and the status 0 are falsy.\<close>

definition status_or_500 :: "nat option \<Rightarrow> nat" where
  "status_or_500 s = (case s of None \<Rightarrow> 500 | Some n \<Rightarrow> if n = 0 then 500 else n)"

text \<open>
  \<open>makeRequest(endpoint, params = {})\<close>. The parameter object comes by reference
  (\<open>None\<close> is an omitted argument, for which a fresh \<open>{}\<close> is made); the API key is
  written into that object before the request is issued.
\<close>

definition makeRequest ::
  "host \<Rightarrow> OpenDotaClient \<Rightarrow> jsstring \<Rightarrow> nat option \<Rightarrow> state \<Rightarrow> (thrown + json) \<times> state" where
  "makeRequest h this endpoint params_ref st =
     (let (p, st1) = (case params_ref of None \<Rightarrow> alloc [] st | Some a \<Rightarrow> (a, st));
          url = baseURL this @ endpoint;
          st2 = (case apiKey this of
                   None \<Rightarrow> st1
                 | Some k \<Rightarrow> if k = [] then st1 else assign_prop p ''api_key'' (Str k) st1);
          st3 = st2\<lparr>requests := requests st2 @
                  [\<lparr>req_url = url, req_params = object_at st2 p,
                    req_timeout = timeout this, req_user_agent = userAgent this\<rparr>]\<rparr>
      in case axios_get h url (object_at st2 p) (timeout this) (userAgent this) of
           Inr response \<Rightarrow> (Inr (data response), st3)
         | Inl e \<Rightarrow>
             (let statusCode = map_option status (err_response e) in
              if err_code e = Some (utf16 ''ECONNABORTED'')
                 \<or> includes_str (err_message e) (utf16 ''timeout'')
              then (Inl (MCP (new_TimeoutError
                      (utf16 ''OpenDota API request timed out after ''
                         @ number_to_string h (timeout this) @ utf16 ''ms'')
                      (Some (TimeoutDetails e)))), st3)
              else (Inl (MCP (new_APIError
                      (utf16 ''OpenDota API request failed: '' @ err_message e)
                      (status_or_500 statusCode)
                      (Some (ApiDetails (err_code e) (map_option data (err_response e)) e)))),
                    st3)))"

definition getMatch :: "host \<Rightarrow> OpenDotaClient \<Rightarrow> jsval \<Rightarrow> state \<Rightarrow> (thrown + json) \<times> state" where
  "getMatch h this matchId st =
     makeRequest h this (utf16 ''/matches/'' @ to_string h matchId) None st"

definition getPlayer :: "host \<Rightarrow> OpenDotaClient \<Rightarrow> jsval \<Rightarrow> state \<Rightarrow> (thrown + json) \<times> state" where
  "getPlayer h this accountId st =
     makeRequest h this (utf16 ''/players/'' @ to_string h accountId) None st"

text \<open>\<open>options = {}\<close>: an omitted argument is a fresh empty object.\<close>

definition getPlayerMatches ::
  "host \<Rightarrow> OpenDotaClient \<Rightarrow> jsval \<Rightarrow> nat option \<Rightarrow> state \<Rightarrow> (thrown + json) \<times> state" where
  "getPlayerMatches h this accountId options st =
     (let (p, st1) = (case options of None \<Rightarrow> alloc [] st | Some a \<Rightarrow> (a, st))
      in makeRequest h this
           (utf16 ''/players/'' @ to_string h accountId @ utf16 ''/matches'') (Some p) st1)"

definition getPlayerRecentMatches ::
  "host \<Rightarrow> OpenDotaClient \<Rightarrow> jsval \<Rightarrow> state \<Rightarrow> (thrown + json) \<times> state" where
  "getPlayerRecentMatches h this accountId st =
     makeRequest h this
       (utf16 ''/players/'' @ to_string h accountId @ utf16 ''/recentMatches'') None st"

definition getPlayerHeroes ::
  "host \<Rightarrow> OpenDotaClient \<Rightarrow> jsval \<Rightarrow> state \<Rightarrow> (thrown + json) \<times> state" where
  "getPlayerHeroes h this accountId st =
     makeRequest h this
       (utf16 ''/players/'' @ to_string h accountId @ utf16 ''/heroes'') None st"

definition getHeroes :: "host \<Rightarrow> OpenDotaClient \<Rightarrow> state \<Rightarrow> (thrown + json) \<times> state" where
  "getHeroes h this st = makeRequest h this (utf16 ''/heroes'') None st"

definition searchPlayers ::
  "host \<Rightarrow> OpenDotaClient \<Rightarrow> jsval \<Rightarrow> state \<Rightarrow> (thrown + json) \<times> state" where
  "searchPlayers h this query st =
     (let (p, st1) = alloc [(''q'', query)] st
      in makeRequest h this (utf16 ''/search'') (Some p) st1)"

definition getProMatches :: "host \<Rightarrow> OpenDotaClient \<Rightarrow> state \<Rightarrow> (thrown + json) \<times> state" where
  "getProMatches h this st = makeRequest h this (utf16 ''/proMatches'') None st"

definition getPublicMatches :: "host \<Rightarrow> OpenDotaClient \<Rightarrow> state \<Rightarrow> (thrown + json) \<times> state" where
  "getPublicMatches h this st = makeRequest h this (utf16 ''/publicMatches'') None st"

section \<open>Tool argument schemas\<close>

text \<open>The name zod gives to the type of a value; \<open>None\<close> is \<open>undefined\<close>.\<close>

definition parsed_type :: "json option \<Rightarrow> string" where
  "parsed_type v =
     (case v of
        None \<Rightarrow> ''undefined''
      | Some JNull \<Rightarrow> ''null''
      | Some (JBool b) \<Rightarrow> ''boolean''
      | Some (JNum n) \<Rightarrow> (if n = NaN then ''nan'' else ''number'')
      | Some (JStr s) \<Rightarrow> ''string''
      | Some (JArr xs) \<Rightarrow> ''array''
      | Some (JObj kvs) \<Rightarrow> ''object'')"

text \<open>\<open>z.number()\<close>, \<open>z.number().optional()\<close> and \<open>z.string()\<close> at a path.\<close>

definition z_number :: "string list \<Rightarrow> json option \<Rightarrow> zod_issue list + jsval" where
  "z_number path v =
     (case v of
        Some (JNum n) \<Rightarrow>
          if n = NaN then Inl [InvalidType path ''number'' ''nan''] else Inr (Num n)
      | _ \<Rightarrow> Inl [InvalidType path ''number'' (parsed_type v)])"

definition z_number_optional :: "string list \<Rightarrow> json option \<Rightarrow> zod_issue list + jsval" where
  "z_number_optional path v = (case v of None \<Rightarrow> Inr Undefined | Some x \<Rightarrow> z_number path v)"

definition z_string :: "string list \<Rightarrow> json option \<Rightarrow> zod_issue list + jsval" where
  "z_string path v =
     (case v of
        Some (JStr s) \<Rightarrow> Inr (Str s)
      | _ \<Rightarrow> Inl [InvalidType path ''string'' (parsed_type v)])"

definition issues_of :: "zod_issue list + jsval \<Rightarrow> zod_issue list" where
  "issues_of r = (case r of Inl issues \<Rightarrow> issues | Inr v \<Rightarrow> [])"

definition value_of :: "zod_issue list + jsval \<Rightarrow> jsval" where
  "value_of r = (case r of Inl issues \<Rightarrow> Undefined | Inr v \<Rightarrow> v)"

text \<open>
  \<open>z.object(shape).parse(args)\<close>: the argument must be an object; every key of the
  shape is checked, the issues of all keys are collected, and any issue makes \<open>parse\<close>
  throw a \<open>ZodError\<close>. The result holds the parsed keys in the order of the shape.
\<close>

definition z_object ::
  "(string \<times> (string list \<Rightarrow> json option \<Rightarrow> zod_issue list + jsval)) list \<Rightarrow> json option
     \<Rightarrow> zod_issue list + object" where
  "z_object shape args =
     (case args of
        Some (JObj kvs) \<Rightarrow>
          (let rs = map (\<lambda>(k, check). (k, check [k] (map_of kvs (utf16 k)))) shape;
               issues = concat (map (\<lambda>(k, r). issues_of r) rs)
           in if issues = [] then Inr (map (\<lambda>(k, r). (k, value_of r)) rs) else Inl issues)
      | _ \<Rightarrow> Inl [InvalidType [] ''object'' (parsed_type args)])"

definition GetMatchSchema :: "json option \<Rightarrow> zod_issue list + object" where
  "GetMatchSchema = z_object [(''match_id'', z_number)]"

definition GetPlayerSchema :: "json option \<Rightarrow> zod_issue list + object" where
  "GetPlayerSchema = z_object [(''account_id'', z_number)]"

definition GetPlayerMatchesSchema :: "json option \<Rightarrow> zod_issue list + object" where
  "GetPlayerMatchesSchema =
     z_object [(''account_id'', z_number), (''limit'', z_number_optional),
               (''hero_id'', z_number_optional)]"

definition SearchPlayersSchema :: "json option \<Rightarrow> zod_issue list + object" where
  "SearchPlayersSchema = z_object [(''query'', z_string)]"

definition NaturalQuerySchema :: "json option \<Rightarrow> zod_issue list + object" where
  "NaturalQuerySchema = z_object [(''query'', z_string)]"

section \<open>The tool request handler\<close>

text \<open>A content item \<open>{type: 'text', text}\<close>.\<close>

datatype content_item = TextContent jsstring

text \<open>The response envelope; \<open>isError = None\<close> is an envelope without the field.\<close>

record tool_response =
  content :: "content_item list"
  isError :: "bool option"

definition text_response :: "jsstring \<Rightarrow> tool_response" where
  "text_response t = \<lparr>content = [TextContent t], isError = None\<rparr>"

text \<open>
  \<open>const x = await client.f(...); return {content: [{type: 'text', text: label +
  JSON.stringify(x, null, 2)}]}\<close>: a rejection of the client call is thrown on.
\<close>

definition reply_with ::
  "host \<Rightarrow> jsstring \<Rightarrow> (thrown + json) \<times> state \<Rightarrow> (thrown + tool_response) \<times> state" where
  "reply_with h label r =
     (case r of
        (Inl e, st) \<Rightarrow> (Inl e, st)
      | (Inr d, st) \<Rightarrow> (Inr (text_response (label @ stringify_json h d)), st))"

definition log_tool :: "tool_execution \<Rightarrow> state \<Rightarrow> state" where
  "log_tool entry st = st\<lparr>tool_log := tool_log st @ [entry]\<rparr>"

text \<open>The \<open>switch (parsed.type)\<close> of the tool \<open>natural_query\<close>.\<close>

definition natural_query ::
  "host \<Rightarrow> OpenDotaClient \<Rightarrow> jsstring \<Rightarrow> state \<Rightarrow> (thrown + tool_response) \<times> state" where
  "natural_query h client query st =
     (let parsed = parseNaturalQuery query in
      if type parsed = utf16 ''get_match'' then
        reply_with h
          (utf16 ''Match '' @ to_string h (get_prop (params parsed) ''match_id'')
             @ utf16 '' information:'' @ [10, 10])
          (getMatch h client (get_prop (params parsed) ''match_id'') st)
      else if type parsed = utf16 ''get_player'' then
        reply_with h
          (utf16 ''Player '' @ to_string h (get_prop (params parsed) ''account_id'')
             @ utf16 '' information:'' @ [10, 10])
          (getPlayer h client (get_prop (params parsed) ''account_id'') st)
      else if type parsed = utf16 ''search_players'' then
        reply_with h
          (utf16 ''Search results for '' @ [34]
             @ to_string h (get_prop (params parsed) ''query'') @ [34, 58, 10, 10])
          (searchPlayers h client (get_prop (params parsed) ''query'') st)
      else if type parsed = utf16 ''get_player_recent_matches'' then
        reply_with h
          (utf16 ''Recent matches for player ''
             @ to_string h (get_prop (params parsed) ''account_id'') @ [58, 10, 10])
          (getPlayerRecentMatches h client (get_prop (params parsed) ''account_id'') st)
      else if type parsed = utf16 ''get_player_heroes'' then
        reply_with h
          (utf16 ''Hero statistics for player ''
             @ to_string h (get_prop (params parsed) ''account_id'') @ [58, 10, 10])
          (getPlayerHeroes h client (get_prop (params parsed) ''account_id'') st)
      else
        (Inr (text_response
           (utf16 ''I couldn't understand your query: '' @ [34] @ query @ [34]
              @ utf16 ''. Please try asking about specific matches, players, or use one of the available tools.'')),
         st))"

text \<open>
  The \<open>try\<close> block: \<open>Inl\<close> is what it throws. What \<open>NaturalQuerySchema\<close>
  returns as \<open>query\<close> is a string; on any other value \<open>query.toLowerCase()\<close> would
  throw a \<open>TypeError\<close>, a branch that is never taken (\<open>schema_query_is_string\<close> below).
\<close>

definition try_block ::
  "host \<Rightarrow> OpenDotaClient \<Rightarrow> jsstring \<Rightarrow> json option \<Rightarrow> state
     \<Rightarrow> (thrown + tool_response) \<times> state" where
  "try_block h client nm args st =
     (if nm = utf16 ''get_match'' then
        (case GetMatchSchema args of
           Inl issues \<Rightarrow> (Inl (ZodError issues), st)
         | Inr a \<Rightarrow>
             (case getMatch h client (get_prop a ''match_id'') st of
                (Inl e, st1) \<Rightarrow> (Inl e, st1)
              | (Inr m, st1) \<Rightarrow>
                  (Inr (text_response (stringify_json h m)),
                   log_tool \<lparr>toolName = nm, arguments = args, success = True, error = None\<rparr>
                     st1)))
      else if nm = utf16 ''get_player'' then
        (case GetPlayerSchema args of
           Inl issues \<Rightarrow> (Inl (ZodError issues), st)
         | Inr a \<Rightarrow> reply_with h [] (getPlayer h client (get_prop a ''account_id'') st))
      else if nm = utf16 ''get_player_matches'' then
        (case GetPlayerMatchesSchema args of
           Inl issues \<Rightarrow> (Inl (ZodError issues), st)
         | Inr a \<Rightarrow>
             (let limit = (if get_prop a ''limit'' = Undefined then Num (Finite 20)
                           else get_prop a ''limit'');
                  (p, st1) = alloc [(''limit'', limit), (''hero_id'', get_prop a ''hero_id'')] st
              in reply_with h []
                   (getPlayerMatches h client (get_prop a ''account_id'') (Some p) st1)))
      else if nm = utf16 ''get_player_recent_matches'' then
        (case GetPlayerSchema args of
           Inl issues \<Rightarrow> (Inl (ZodError issues), st)
         | Inr a \<Rightarrow>
             reply_with h [] (getPlayerRecentMatches h client (get_prop a ''account_id'') st))
      else if nm = utf16 ''get_player_heroes'' then
        (case GetPlayerSchema args of
           Inl issues \<Rightarrow> (Inl (ZodError issues), st)
         | Inr a \<Rightarrow> reply_with h [] (getPlayerHeroes h client (get_prop a ''account_id'') st))
      else if nm = utf16 ''search_players'' then
        (case SearchPlayersSchema args of
           Inl issues \<Rightarrow> (Inl (ZodError issues), st)
         | Inr a \<Rightarrow> reply_with h [] (searchPlayers h client (get_prop a ''query'') st))
      else if nm = utf16 ''get_heroes'' then reply_with h [] (getHeroes h client st)
      else if nm = utf16 ''get_pro_matches'' then reply_with h [] (getProMatches h client st)
      else if nm = utf16 ''natural_query'' then
        (case NaturalQuerySchema args of
           Inl issues \<Rightarrow> (Inl (ZodError issues), st)
         | Inr a \<Rightarrow>
             (case get_prop a ''query'' of
                Str query \<Rightarrow> natural_query h client query st
              | _ \<Rightarrow>
                  (Inl (Other (PlainError (utf16 ''query.toLowerCase is not a function''))),
                   st)))
      else (Inl (Other (PlainError (utf16 ''Unknown tool: '' @ nm))), st))"

text \<open>The \<open>catch\<close> block: the error is made an \<open>MCPError\<close>, logged and reported.\<close>

definition to_MCPError :: "host \<Rightarrow> thrown \<Rightarrow> MCPError" where
  "to_MCPError h e =
     (case e of
        ZodError issues \<Rightarrow>
          new_ValidationError (utf16 ''Invalid tool arguments'') (Some (ZodDetails issues))
      | MCP m \<Rightarrow> m
      | Other (PlainError msg) \<Rightarrow>
          new_MCPError msg (utf16 ''TOOL_EXECUTION_ERROR'') 500
            (Some (OriginalError (PlainError msg)))
      | Other (NonError v) \<Rightarrow>
          new_MCPError (to_string h v) (utf16 ''UNKNOWN_ERROR'') 500
            (Some (OriginalError (NonError v))))"

definition error_text :: "host \<Rightarrow> MCPError \<Rightarrow> jsstring" where
  "error_text h mcpError =
     utf16 ''Error: '' @ message mcpError @
       (if env h ''NODE_ENV'' = Some (utf16 ''development'') then
          (case details mcpError of
             None \<Rightarrow> []
           | Some d \<Rightarrow> [10, 10] @ utf16 ''Details: '' @ stringify_details h d)
        else [])"

definition catch_block ::
  "host \<Rightarrow> jsstring \<Rightarrow> json option \<Rightarrow> thrown \<Rightarrow> state \<Rightarrow> tool_response \<times> state" where
  "catch_block h nm args e st =
     (let mcpError = to_MCPError h e in
      (\<lparr>content = [TextContent (error_text h mcpError)], isError = Some True\<rparr>,
       log_tool \<lparr>toolName = nm, arguments = args, success = False, error = Some mcpError\<rparr>
         st))"

definition call_tool ::
  "host \<Rightarrow> OpenDotaClient \<Rightarrow> jsstring \<Rightarrow> json option \<Rightarrow> state \<Rightarrow> tool_response \<times> state" where
  "call_tool h client nm args st =
     (case try_block h client nm args st of
        (Inr r, st1) \<Rightarrow> (r, st1)
      | (Inl e, st1) \<Rightarrow> catch_block h nm args e st1)"

section \<open>Predicates for the statements\<close>

text \<open>
  An error as the client makes it: a \<open>TimeoutError\<close> (status code 408) or an
  \<open>APIError\<close>, with its details.
\<close>

definition client_error :: "thrown \<Rightarrow> bool" where
  "client_error e =
     (case e of
        MCP m \<Rightarrow>
          details m \<noteq> None \<and>
          (name m = utf16 ''TimeoutError'' \<and> code m = utf16 ''TIMEOUT_ERROR''
             \<and> statusCode m = 408
           \<or> name m = utf16 ''APIError'' \<and> code m = utf16 ''API_ERROR'')
      | _ \<Rightarrow> False)"

text \<open>What axios answers to a request that was issued.\<close>

definition outcome_of :: "host \<Rightarrow> get_request \<Rightarrow> axios_error + axios_response" where
  "outcome_of h r = axios_get h (req_url r) (req_params r) (req_timeout r) (req_user_agent r)"

text \<open>The error the client is to throw when axios rejects a request with \<open>e\<close>.\<close>

definition rejection_error :: "host \<Rightarrow> OpenDotaClient \<Rightarrow> axios_error \<Rightarrow> MCPError" where
  "rejection_error h this e =
     (if err_code e = Some (utf16 ''ECONNABORTED'')
         \<or> includes_str (err_message e) (utf16 ''timeout'')
      then \<lparr>name = utf16 ''TimeoutError'',
            message = utf16 ''OpenDota API request timed out after ''
                        @ number_to_string h (timeout this) @ utf16 ''ms'',
            code = utf16 ''TIMEOUT_ERROR'', statusCode = 408,
            details = Some (TimeoutDetails e)\<rparr>
      else \<lparr>name = utf16 ''APIError'',
            message = utf16 ''OpenDota API request failed: '' @ err_message e,
            code = utf16 ''API_ERROR'',
            statusCode = (case err_response e of
                            None \<Rightarrow> 500
                          | Some resp \<Rightarrow> if status resp = 0 then 500 else status resp),
            details = Some (ApiDetails (err_code e) (map_option data (err_response e)) e)\<rparr>)"

section \<open>Decimal numerals\<close>

text \<open>
  A natural number written in decimal with no leading zeros: the form in which the
  queries below carry a match or account id.
\<close>

fun decimal :: "nat \<Rightarrow> jsstring" where
  "decimal n = (if n < 10 then [48 + n] else decimal (n div 10) @ [48 + n mod 10])"

declare decimal.simps [simp del]

section \<open>Stubs for example runs\<close>

text \<open>
  The error axios rejects with when the upstream answers with status 404 and the body
  \<open>{error: "not found"}\<close>, and the one it rejects with when the upstream does not
  answer within the timeout.
\<close>

definition error_404 :: axios_error where
  "error_404 =
     \<lparr>err_code = Some (utf16 ''ERR_BAD_REQUEST''),
      err_message = utf16 ''Request failed with status code 404'',
      err_response =
        Some \<lparr>status = 404, data = JObj [(utf16 ''error'', JStr (utf16 ''not found''))]\<rparr>\<rparr>"

definition error_timeout :: axios_error where
  "error_timeout =
     \<lparr>err_code = Some (utf16 ''ECONNABORTED''),
      err_message = utf16 ''timeout of 30000ms exceeded'',
      err_response = None\<rparr>"

text \<open>
  A host whose upstream rejects every request with one of these errors and in which no
  environment variable is set. Its runtime functions (the conversion of numbers and the
  two uses of \<open>JSON.stringify\<close>) are those of the host \<open>rt\<close>, whatever they are.
\<close>

definition stub_host_404 :: "host \<Rightarrow> host" where
  "stub_host_404 rt = rt\<lparr>axios_get := (\<lambda>u ps t ua. Inl error_404), env := (\<lambda>k. None)\<rparr>"

definition stub_host_timeout :: "host \<Rightarrow> host" where
  "stub_host_timeout rt =
     rt\<lparr>axios_get := (\<lambda>u ps t ua. Inl error_timeout), env := (\<lambda>k. None)\<rparr>"

text \<open>The same host with \<open>NODE_ENV=development\<close>.\<close>

definition in_development :: "host \<Rightarrow> host" where
  "in_development h = h\<lparr>env := (env h)(''NODE_ENV'' \<mapsto> utf16 ''development'')\<rparr>"

definition stub_client :: OpenDotaClient where
  "stub_client =
     \<lparr>baseURL = utf16 ''https://api.opendota.com/api'', timeout = Finite 30000,
      apiKey = Some (utf16 ''test-api-key''), userAgent = utf16 ''OpenDota-MCP-Server/1.0.0''\<rparr>"

definition initial_state :: state where
  "initial_state = \<lparr>heap = (\<lambda>a. None), next_ref = 0, requests = [], tool_log = []\<rparr>"

section \<open>Evaluation rules\<close>

lemma utf16_append: "utf16 (a @ b) = utf16 a @ utf16 b"
  by (simp add: utf16_def)

lemmas rx_defs = matchIdPattern_def playerNamePattern_def playerIdPattern_def
  recentMatchesPattern_def playerHeroesPattern_def word_def seqs_def

lemmas char_defs = is_white_space_def is_digit_def canonicalize_def

lemmas parseInt_defs = parseInt_def round_float64_def radix_value_def is_radix_digit_def
  digit_value_def

lemmas dispatch_defs = parseNaturalQuery_def utf16_def rx_defs char_defs parseInt_defs
  group_string_def group_val_def group_or_def

section \<open>The matcher on strings with an unknown part\<close>

lemma rx_match_Plus_Nil: "rx_match (Plus a) [] c = []"
  by simp

lemma rev_upt_1_Suc: "rev [1 ..< Suc (Suc n)] = map Suc (rev [1 ..< Suc n]) @ [1]"
proof -
  have "[1 ..< Suc (Suc n)] = 1 # [Suc 1 ..< Suc (Suc n)]"
    by (rule upt_conv_Cons) simp
  also have "[Suc 1 ..< Suc (Suc n)] = map Suc [1 ..< Suc n]"
    by (simp only: map_Suc_upt)
  finally show ?thesis by (simp only: rev.simps rev_map)
qed

text \<open>Greedy \<open>+\<close>, unit by unit: the longer matches come before the shorter ones.\<close>

lemma rx_match_Plus_Cons:
  "rx_match (Plus a) (x # xs) c =
     (if atom_ok a x then rx_match (Plus a) xs c @ [(xs, c)] else [])"
proof (cases "atom_ok a x")
  case False
  then show ?thesis by simp
next
  case True
  define n where "n = length (takeWhile (atom_ok a) xs)"
  have "rx_match (Plus a) (x # xs) c =
          map (\<lambda>k. (drop k (x # xs), c)) (rev [1 ..< Suc (Suc n)])"
    using True by (simp add: n_def del: upt_Suc)
  also have "\<dots> = map (\<lambda>k. (drop k (x # xs), c)) (map Suc (rev [1 ..< Suc n]) @ [1])"
    by (simp only: rev_upt_1_Suc)
  also have "\<dots> = map (\<lambda>k. (drop k xs, c)) (rev [1 ..< Suc n]) @ [(xs, c)]"
    by (simp add: comp_def del: upt_Suc)
  also have "\<dots> = rx_match (Plus a) xs c @ [(xs, c)]"
    by (simp add: n_def del: upt_Suc)
  finally show ?thesis using True by simp
qed

text \<open>Greedy \<open>+\<close> on a run of matching units: the whole run is tried first.\<close>

lemma rx_match_Plus_all:
  assumes "list_all (atom_ok a) ds" and "ds \<noteq> []"
      and "t = [] \<or> \<not> atom_ok a (hd t)"
  shows "rx_match (Plus a) (ds @ t) c =
           (t, c) # map (\<lambda>k. (drop k (ds @ t), c)) (rev [1 ..< length ds])"
proof -
  have "takeWhile (atom_ok a) t = []"
    using assms(3) by (cases t) auto
  then have tw: "takeWhile (atom_ok a) (ds @ t) = ds"
    using assms(1) by (simp add: list_all_iff)
  have n: "1 \<le> length ds"
    using assms(2) by (cases ds) auto
  have "rx_match (Plus a) (ds @ t) c =
          map (\<lambda>k. (drop k (ds @ t), c)) (rev [1 ..< Suc (length ds)])"
    using tw by (simp del: upt_Suc)
  also have "\<dots> = (t, c) # map (\<lambda>k. (drop k (ds @ t), c)) (rev [1 ..< length ds])"
    using n by simp
  finally show ?thesis .
qed

lemma rx_match_Plus_digits:
  assumes "is_digit d" and "list_all is_digit ds"
  shows "rx_match (Plus Digit) (d # ds) c =
           ([], c) # map (\<lambda>k. (drop k (d # ds), c)) (rev [1 ..< Suc (length ds)])"
  using rx_match_Plus_all [of Digit "d # ds" "[]" c] assms
  by (simp add: list_all_iff del: rx_match.simps upt_Suc)

lemma rx_match_Plus_digits_then_space:
  assumes "is_digit d" and "list_all is_digit ds"
  shows "rx_match (Plus Digit) ((d # ds) @ 32 # t) c =
           (32 # t, c) #
           map (\<lambda>k. (drop k ((d # ds) @ 32 # t), c)) (rev [1 ..< Suc (length ds)])"
  using rx_match_Plus_all [of Digit "d # ds" "32 # t" c] assms
  by (simp add: is_digit_def list_all_iff del: rx_match.simps upt_Suc)

lemmas sym_eval = utf16_def rx_defs char_defs rx_match_Plus_Cons [of Space]
  rx_match_Plus_Cons [of "Lit k" for k]

text \<open>No match of the first two patterns starts at a digit.\<close>

lemma skip_digits_matchId:
  "list_all is_digit ds \<Longrightarrow> rx_exec matchIdPattern (ds @ t) = rx_exec matchIdPattern t"
  by (induction ds) (simp_all add: rx_defs char_defs)

lemma skip_digits_playerName:
  "list_all is_digit ds \<Longrightarrow> rx_exec playerNamePattern (ds @ t) = rx_exec playerNamePattern t"
  by (induction ds) (simp_all add: rx_defs char_defs)

lemma digits_matchId: "list_all is_digit ds \<Longrightarrow> rx_exec matchIdPattern ds = None"
  using skip_digits_matchId [of ds "[]"] by (simp add: rx_defs)

lemma digits_playerName: "list_all is_digit ds \<Longrightarrow> rx_exec playerNamePattern ds = None"
  using skip_digits_playerName [of ds "[]"] by (simp add: rx_defs)

subsection \<open>recent matches for player N\<close>

lemma recent_matchId:
  assumes "is_digit d" and "list_all is_digit ds"
  shows "rx_exec matchIdPattern (utf16 ''recent matches for player '' @ d # ds) = None"
  using assms digits_matchId [of "d # ds"]
  by (simp add: sym_eval del: rx_match.simps(3))

lemma recent_playerName:
  assumes "is_digit d" and "list_all is_digit ds"
  shows "rx_exec playerNamePattern (utf16 ''recent matches for player '' @ d # ds) = None"
  using assms digits_playerName [of "d # ds"]
  by (simp add: sym_eval del: rx_match.simps(3))

lemma recent_playerId:
  assumes "is_digit d" and "list_all is_digit ds"
  shows "\<exists>m. rx_exec playerIdPattern (utf16 ''recent matches for player '' @ d # ds) = Some m
           \<and> m 1 = Some (d # ds)"
  using assms
  by (simp add: sym_eval rx_match_Plus_digits del: rx_match.simps(3) upt_Suc)

subsection \<open>heroes for player N\<close>

lemma heroes_for_matchId:
  assumes "is_digit d" and "list_all is_digit ds"
  shows "rx_exec matchIdPattern (utf16 ''heroes for player '' @ d # ds) = None"
  using assms digits_matchId [of "d # ds"]
  by (simp add: sym_eval del: rx_match.simps(3))

lemma heroes_for_playerName:
  assumes "is_digit d" and "list_all is_digit ds"
  shows "rx_exec playerNamePattern (utf16 ''heroes for player '' @ d # ds) = None"
  using assms digits_playerName [of "d # ds"]
  by (simp add: sym_eval del: rx_match.simps(3))

lemma heroes_for_playerId:
  assumes "is_digit d" and "list_all is_digit ds"
  shows "\<exists>m. rx_exec playerIdPattern (utf16 ''heroes for player '' @ d # ds) = Some m
           \<and> m 1 = Some (d # ds)"
  using assms
  by (simp add: sym_eval rx_match_Plus_digits del: rx_match.simps(3) upt_Suc)

subsection \<open>player N heroes\<close>

lemma heroes_suffix_no_match:
  "rx_exec matchIdPattern (utf16 '' heroes'') = None"
  "rx_exec playerNamePattern (utf16 '' heroes'') = None"
  by (simp_all add: utf16_def rx_defs char_defs)

lemma player_heroes_matchId:
  assumes "is_digit d" and "list_all is_digit ds"
  shows "rx_exec matchIdPattern (utf16 ''player '' @ (d # ds) @ utf16 '' heroes'') = None"
proof -
  have "list_all is_digit (d # ds)" using assms by simp
  then have "rx_exec matchIdPattern ((d # ds) @ utf16 '' heroes'') =
      rx_exec matchIdPattern (utf16 '' heroes'')"
    by (rule skip_digits_matchId)
  then have "rx_exec matchIdPattern ((d # ds) @ utf16 '' heroes'') = None"
    by (simp only: heroes_suffix_no_match)
  then show ?thesis
    using assms by (simp add: sym_eval del: rx_match.simps(3))
qed

lemma player_heroes_playerName:
  assumes "is_digit d" and "list_all is_digit ds"
  shows "rx_exec playerNamePattern (utf16 ''player '' @ (d # ds) @ utf16 '' heroes'') = None"
proof -
  have "list_all is_digit (d # ds)" using assms by simp
  then have "rx_exec playerNamePattern ((d # ds) @ utf16 '' heroes'') =
      rx_exec playerNamePattern (utf16 '' heroes'')"
    by (rule skip_digits_playerName)
  then have "rx_exec playerNamePattern ((d # ds) @ utf16 '' heroes'') = None"
    by (simp only: heroes_suffix_no_match)
  then show ?thesis
    using assms by (simp add: sym_eval del: rx_match.simps(3))
qed

lemma player_heroes_playerId:
  assumes "is_digit d" and "list_all is_digit ds"
  shows "\<exists>m. rx_exec playerIdPattern (utf16 ''player '' @ (d # ds) @ utf16 '' heroes'') = Some m
           \<and> m 1 = Some (d # ds)"
  using assms rx_match_Plus_digits_then_space [of d ds]
  by (simp add: sym_eval del: rx_match.simps(3) upt_Suc)

subsection \<open>A quoted name\<close>

lemma quote_free:
  "c \<noteq> 34 \<and> c \<noteq> 39 \<Longrightarrow> atom_ok (NoneOf [CHR 0x22, CHR 0x22, CHR 0x27]) c"
  by (auto simp: canonicalize_def)

lemma rx_match_Plus_name:
  assumes "pname \<noteq> []" and "list_all (\<lambda>c. c \<noteq> 34 \<and> c \<noteq> 39) pname"
  shows "rx_match (Plus (NoneOf [CHR 0x22, CHR 0x22, CHR 0x27])) (pname @ [34]) c =
           ([34], c) # map (\<lambda>k. (drop k (pname @ [34]), c)) (rev [1 ..< length pname])"
proof -
  have a: "list_all (atom_ok (NoneOf [CHR 0x22, CHR 0x22, CHR 0x27])) pname"
    using assms(2) quote_free by (simp add: list_all_iff del: atom_ok.simps)
  have b: "[34::nat] = [] \<or> \<not> atom_ok (NoneOf [CHR 0x22, CHR 0x22, CHR 0x27]) (hd [34::nat])"
    by (simp add: canonicalize_def)
  show ?thesis
    by (rule rx_match_Plus_all [OF a assms(1) b])
qed

lemma find_named_playerName:
  assumes "pname \<noteq> []" and "list_all (\<lambda>c. c \<noteq> 34 \<and> c \<noteq> 39) pname"
  shows "\<exists>m. rx_exec playerNamePattern (utf16 ''find player named '' @ [34] @ pname @ [34])
              = Some m
           \<and> m 1 = Some pname"
  using rx_match_Plus_name [OF assms]
  by (simp add: sym_eval del: rx_match.simps(3) upt_Suc)

subsection \<open>The capture of the match-id pattern\<close>

lemma atom_ok_Digit_eq: "atom_ok Digit = is_digit"
  by (rule ext) simp

lemma in_rx_match_Seq:
  "m \<in> set (rx_match (Seq r1 r2) s c) \<Longrightarrow> \<exists>s1 c1. m \<in> set (rx_match r2 s1 c1)"
  by auto

lemma take_takeWhile:
  assumes "k \<le> length (takeWhile P s)"
  shows "take k s = take k (takeWhile P s)"
proof -
  have "take k s = take k (takeWhile P s @ dropWhile P s)" by simp
  also have "\<dots> = take k (takeWhile P s)"
    using assms by (simp del: takeWhile_dropWhile_id)
  finally show ?thesis .
qed

lemma in_rx_match_digits_group:
  assumes "m \<in> set (rx_match (Seq (Group n (Plus Digit)) Eps) s c)"
  shows "\<exists>ds. snd m n = Some ds \<and> ds \<noteq> [] \<and> list_all is_digit ds"
proof -
  from assms obtain k where k: "Suc 0 \<le> k" "k < Suc (length (takeWhile is_digit s))"
    and m: "m = (drop k s, c(n \<mapsto> take (length s - (length s - k)) s))"
    by (auto simp: atom_ok_Digit_eq simp del: upt_Suc)
  have kt: "k \<le> length (takeWhile is_digit s)" using k(2) by simp
  have le: "k \<le> length s"
    using kt length_takeWhile_le [of is_digit s] by simp
  then have t: "take (length s - (length s - k)) s = take k s" by simp
  have "take k s = take k (takeWhile is_digit s)"
    using kt by (rule take_takeWhile)
  then have "list_all is_digit (take k s)"
    by (auto simp: list_all_iff dest!: in_set_takeD set_takeWhileD)
  moreover have "take k s \<noteq> []" using k(1) le by (cases s) auto
  ultimately show ?thesis using m t by simp
qed

lemma matchId_capture:
  assumes "m \<in> set (rx_match matchIdPattern s c)"
  shows "\<exists>ds. snd m 1 = Some ds \<and> ds \<noteq> [] \<and> list_all is_digit ds"
proof -
  have "matchIdPattern = Seq (Alt (word ''match'') (word ''game'')) (Seq (Plus Space)
     (Seq (Opt (seqs [word ''id'', Plus Space])) (Seq (Group 1 (Plus Digit)) Eps)))"
    by (simp add: matchIdPattern_def seqs_def)
  with assms have "m \<in> set (rx_match (Seq (Alt (word ''match'') (word ''game''))
     (Seq (Plus Space) (Seq (Opt (seqs [word ''id'', Plus Space]))
       (Seq (Group 1 (Plus Digit)) Eps)))) s c)"
    by (simp only:)
  then obtain s1 c1 where "m \<in> set (rx_match (Seq (Plus Space)
     (Seq (Opt (seqs [word ''id'', Plus Space])) (Seq (Group 1 (Plus Digit)) Eps))) s1 c1)"
    using in_rx_match_Seq by blast
  then obtain s2 c2 where "m \<in> set (rx_match
     (Seq (Opt (seqs [word ''id'', Plus Space])) (Seq (Group 1 (Plus Digit)) Eps)) s2 c2)"
    using in_rx_match_Seq by blast
  then obtain s3 c3 where "m \<in> set (rx_match (Seq (Group 1 (Plus Digit)) Eps) s3 c3)"
    using in_rx_match_Seq by blast
  then show ?thesis by (rule in_rx_match_digits_group)
qed

text \<open>What \<open>exec\<close> returns is the first way of matching at some start index.\<close>

lemma rx_exec_Some:
  "rx_exec r s = Some m \<Longrightarrow> \<exists>t x. x \<in> set (rx_match r t (\<lambda>n. None)) \<and> m = snd x"
proof (induction s)
  case Nil
  then obtain x xs where "rx_match r [] (\<lambda>n. None) = x # xs" and "m = snd x"
    by (auto split: list.splits)
  then have "x \<in> set (rx_match r [] (\<lambda>n. None)) \<and> m = snd x" by simp
  then show ?case by blast
next
  case (Cons a s)
  show ?case
  proof (cases "rx_match r (a # s) (\<lambda>n. None)")
    case Nil
    with Cons.prems have "rx_exec r s = Some m" by simp
    then show ?thesis by (rule Cons.IH)
  next
    case (Cons x xs)
    with Cons.prems have "m = snd x" by simp
    moreover have "x \<in> set (rx_match r (a # s) (\<lambda>n. None))" using Cons by simp
    ultimately show ?thesis by blast
  qed
qed

lemma matchId_exec_capture:
  assumes "rx_exec matchIdPattern query = Some m"
  shows "\<exists>ds. m 1 = Some ds \<and> ds \<noteq> [] \<and> list_all is_digit ds"
  using rx_exec_Some [OF assms] matchId_capture by blast

section \<open>parseInt on decimal numerals\<close>

lemma is_digit_units: "n < 10 \<Longrightarrow> is_digit (48 + n)"
  by (simp add: is_digit_def)

lemma decimal_digits: "list_all is_digit (decimal n)"
proof (induction n rule: decimal.induct)
  case (1 n)
  show ?case
  proof (cases "n < 10")
    case True
    then show ?thesis by (subst decimal.simps) (simp add: is_digit_units)
  next
    case False
    with 1 have "list_all is_digit (decimal (n div 10))" by simp
    with False show ?thesis by (subst decimal.simps) (simp add: is_digit_units)
  qed
qed

lemma decimal_not_Nil: "decimal n \<noteq> []"
  by (subst decimal.simps) simp

lemma decimal_Cons: "\<exists>d ds. decimal n = d # ds \<and> is_digit d \<and> list_all is_digit ds"
  using decimal_digits [of n] decimal_not_Nil [of n] by (cases "decimal n") auto

lemma radix_value_snoc:
  "radix_value R (Z @ [c]) =
     radix_value R Z * R + (case digit_value c of None \<Rightarrow> 0 | Some d \<Rightarrow> d)"
  by (simp add: radix_value_def)

lemma radix_value_decimal: "radix_value 10 (decimal n) = n"
proof (induction n rule: decimal.induct)
  case (1 n)
  show ?case
  proof (cases "n < 10")
    case True
    then show ?thesis
      by (subst decimal.simps) (simp add: radix_value_def digit_value_def)
  next
    case False
    with 1 have "radix_value 10 (decimal (n div 10)) = n div 10" by simp
    with False show ?thesis
      by (subst decimal.simps) (simp add: radix_value_snoc digit_value_def)
  qed
qed

lemma digit_radix: "is_digit c \<Longrightarrow> is_radix_digit 10 c"
  by (auto simp: is_digit_def is_radix_digit_def digit_value_def)

text \<open>
  On a run of decimal digits \<open>parseInt\<close> is the float64 nearest to the number the
  digits denote.
\<close>

lemma parseInt_digits:
  assumes "list_all is_digit ds" and "ds \<noteq> []"
  shows "parseInt ds =
     (if radix_value 10 ds = 0 then Finite 0
      else case round_float64 (radix_value 10 ds) of
             None \<Rightarrow> Infinity
           | Some v \<Rightarrow> Finite (of_nat v))"
proof -
  obtain d ds' where ds: "ds = d # ds'" using assms(2) by (cases ds) auto
  with assms(1) have d: "is_digit d" and ds': "list_all is_digit ds'" by simp_all
  have nws: "\<not> is_white_space d"
    using d by (simp add: is_digit_def is_white_space_def)
  have sign: "d \<noteq> 43" "d \<noteq> 45" using d by (simp_all add: is_digit_def)
  have hex: "(case ds of a # b # _ \<Rightarrow> a = 48 \<and> (b = 120 \<or> b = 88) | _ \<Rightarrow> False) = False"
    using ds' by (cases ds') (auto simp: ds is_digit_def)
  have tw: "takeWhile (is_radix_digit 10) ds = ds"
    using assms(1) by (simp add: list_all_iff digit_radix)
  have s1: "(case dropWhile is_white_space ds of [] \<Rightarrow> []
             | c # cs \<Rightarrow> if c = 43 \<or> c = 45 then cs else dropWhile is_white_space ds) = ds"
    using sign nws by (simp add: ds)
  have neg: "(case dropWhile is_white_space ds of [] \<Rightarrow> False | c # x \<Rightarrow> c = 45) = False"
    using sign nws by (simp add: ds)
  show ?thesis
    unfolding parseInt_def Let_def s1 neg hex
    using assms(2) by (simp add: tw split: option.split)
qed

lemma parseInt_decimal: "n < 2 ^ 53 \<Longrightarrow> parseInt (decimal n) = Finite (of_nat n)"
  by (simp add: parseInt_digits decimal_digits decimal_not_Nil radix_value_decimal
        round_float64_def)

lemma decimal_5: "decimal 5 = utf16 ''5''"
  by (subst decimal.simps) (simp add: utf16_def)

section \<open>The dispatcher\<close>

text \<open>
  Claim C1, as the code has it. For every N below \<open>2 ^ 53\<close> (where a float64 holds N
  itself) the text \<open>recent matches for player N\<close> yields \<open>get_player\<close> with account
  id N, and not \<open>get_player_recent_matches\<close>: the bare player-id pattern is tried before
  the recent-matches pattern and matches \<open>player N\<close>.
\<close>

theorem recent_matches_for_player_is_get_player:
  assumes "N < 2 ^ 53"
  shows "parseNaturalQuery (utf16 ''recent matches for player '' @ decimal N) =
     \<lparr>type = utf16 ''get_player'', params = [(''account_id'', Num (Finite (of_nat N)))]\<rparr>"
proof -
  obtain d ds where ds: "decimal N = d # ds" and d: "is_digit d" "list_all is_digit ds"
    using decimal_Cons by blast
  obtain m where m: "rx_exec playerIdPattern (utf16 ''recent matches for player '' @ d # ds)
      = Some m" and g: "m 1 = Some (d # ds)"
    using recent_playerId [OF d] by blast
  have "parseInt (d # ds) = Finite (of_nat N)"
    using parseInt_decimal [OF assms] by (simp add: ds)
  then show ?thesis
    using recent_matchId [OF d] recent_playerName [OF d] m g
    by (simp add: parseNaturalQuery_def ds group_string_def)
qed

theorem recent_matches_for_player_is_get_player_witness:
  "parseNaturalQuery (utf16 ''recent matches for player 5'') =
     \<lparr>type = utf16 ''get_player'', params = [(''account_id'', Num (Finite 5))]\<rparr>"
proof -
  have "(5::nat) < 2 ^ 53" by simp
  from recent_matches_for_player_is_get_player [OF this]
  show ?thesis by (simp add: decimal_5 utf16_def)
qed

text \<open>
  Claim C2, as the code has it. For every N below \<open>2 ^ 53\<close> both \<open>heroes for player
  N\<close> and \<open>player N heroes\<close> yield \<open>get_player\<close> with account id N, and not
  \<open>get_player_heroes\<close>: the bare player-id pattern is tried before the heroes pattern
  and matches \<open>player N\<close>.
\<close>

theorem heroes_for_player_is_get_player:
  assumes "N < 2 ^ 53"
  shows "parseNaturalQuery (utf16 ''heroes for player '' @ decimal N) =
     \<lparr>type = utf16 ''get_player'', params = [(''account_id'', Num (Finite (of_nat N)))]\<rparr>
   \<and> parseNaturalQuery (utf16 ''player '' @ decimal N @ utf16 '' heroes'') =
     \<lparr>type = utf16 ''get_player'', params = [(''account_id'', Num (Finite (of_nat N)))]\<rparr>"
proof -
  obtain d ds where ds: "decimal N = d # ds" and d: "is_digit d" "list_all is_digit ds"
    using decimal_Cons by blast
  obtain m where m: "rx_exec playerIdPattern (utf16 ''heroes for player '' @ d # ds) = Some m"
    and g: "m 1 = Some (d # ds)"
    using heroes_for_playerId [OF d] by blast
  obtain m' where m': "rx_exec playerIdPattern
      (utf16 ''player '' @ (d # ds) @ utf16 '' heroes'') = Some m'"
    and g': "m' 1 = Some (d # ds)"
    using player_heroes_playerId [OF d] by blast
  have p: "parseInt (d # ds) = Finite (of_nat N)"
    using parseInt_decimal [OF assms] by (simp add: ds)
  have "parseNaturalQuery (utf16 ''heroes for player '' @ d # ds) =
     \<lparr>type = utf16 ''get_player'', params = [(''account_id'', Num (Finite (of_nat N)))]\<rparr>"
    using heroes_for_matchId [OF d] heroes_for_playerName [OF d] m g p
    by (simp add: parseNaturalQuery_def group_string_def)
  moreover have "parseNaturalQuery (utf16 ''player '' @ (d # ds) @ utf16 '' heroes'') =
     \<lparr>type = utf16 ''get_player'', params = [(''account_id'', Num (Finite (of_nat N)))]\<rparr>"
    using player_heroes_matchId [OF d] player_heroes_playerName [OF d] m' g' p
    by (simp add: parseNaturalQuery_def group_string_def)
  ultimately show ?thesis by (simp only: ds)
qed

theorem heroes_for_player_is_get_player_witness:
  "parseNaturalQuery (utf16 ''heroes for player 5'') =
     \<lparr>type = utf16 ''get_player'', params = [(''account_id'', Num (Finite 5))]\<rparr>
   \<and> parseNaturalQuery (utf16 ''player 5 heroes'') =
     \<lparr>type = utf16 ''get_player'', params = [(''account_id'', Num (Finite 5))]\<rparr>"
proof -
  have "(5::nat) < 2 ^ 53" by simp
  from heroes_for_player_is_get_player [OF this]
  show ?thesis by (simp add: decimal_5 utf16_def)
qed

text \<open>
  The README's own examples of natural-language queries about recent matches and
  heroes are dispatched to \<open>get_player\<close> as well.
\<close>

lemma readme_recent_matches_example:
  "parseNaturalQuery (utf16 ''Recent matches for player 123456789'') =
     \<lparr>type = utf16 ''get_player'', params = [(''account_id'', Num (Finite 123456789))]\<rparr>"
  by (simp add: dispatch_defs)

lemma readme_heroes_example:
  "parseNaturalQuery (utf16 ''What heroes does player 123456789 play?'') =
     \<lparr>type = utf16 ''get_player'', params = [(''account_id'', Num (Finite 123456789))]\<rparr>"
  by (simp add: dispatch_defs)

text \<open>
  Claim C6. Whenever the match-id pattern matches, also on a text that the bare
  player-id pattern matches too, the result is \<open>get_match\<close>, because the match-id check
  runs first; its match id is what \<open>parseInt\<close> reads from the capture of the match-id
  pattern, a run of one or more decimal digits.
\<close>

theorem match_id_pattern_wins:
  assumes "rx_exec matchIdPattern query = Some m"
      and "rx_exec playerIdPattern query \<noteq> None"
  shows "\<exists>ds. m 1 = Some ds \<and> ds \<noteq> [] \<and> list_all is_digit ds
     \<and> parseNaturalQuery query =
         \<lparr>type = utf16 ''get_match'', params = [(''match_id'', Num (parseInt ds))]\<rparr>"
proof -
  obtain ds where ds: "m 1 = Some ds" "ds \<noteq> []" "list_all is_digit ds"
    using matchId_exec_capture [OF assms(1)] by blast
  have "parseNaturalQuery query =
         \<lparr>type = utf16 ''get_match'', params = [(''match_id'', Num (parseInt ds))]\<rparr>"
    using assms(1) ds(1) by (simp add: parseNaturalQuery_def group_string_def)
  with ds show ?thesis by blast
qed

lemma match_5_player_9_match_id:
  "\<exists>m. rx_exec matchIdPattern (utf16 ''match 5 player 9'') = Some m \<and> m 1 = Some (utf16 ''5'')"
  by (simp add: utf16_def rx_defs char_defs)

lemma match_5_player_9_player_id:
  "rx_exec playerIdPattern (utf16 ''match 5 player 9'') \<noteq> None"
  by (simp add: utf16_def rx_defs char_defs)

lemma parseInt_5: "parseInt (utf16 ''5'') = Finite 5"
  by (simp add: utf16_def parseInt_defs char_defs)

theorem match_id_pattern_wins_witness:
  "rx_exec matchIdPattern (utf16 ''match 5 player 9'') \<noteq> None
   \<and> rx_exec playerIdPattern (utf16 ''match 5 player 9'') \<noteq> None
   \<and> parseNaturalQuery (utf16 ''match 5 player 9'') =
     \<lparr>type = utf16 ''get_match'', params = [(''match_id'', Num (Finite 5))]\<rparr>"
proof -
  obtain m where m: "rx_exec matchIdPattern (utf16 ''match 5 player 9'') = Some m"
    and g: "m 1 = Some (utf16 ''5'')"
    using match_5_player_9_match_id by blast
  from match_id_pattern_wins [OF m match_5_player_9_player_id] g parseInt_5 m
    match_5_player_9_player_id
  show ?thesis by auto
qed

text \<open>
  Claim C8. The text \<open>find player named "Foo"\<close> yields \<open>search_players\<close> whose query
  is exactly \<open>Foo\<close>. More generally, for every name that is not empty and has no quote
  in it, the text \<open>find player named "name"\<close> yields \<open>search_players\<close> whose query is
  the name as it stands between the quotes, white space included, provided the match-id
  pattern, which is tried first, does not match the text.
\<close>

theorem find_player_named:
  assumes "pname \<noteq> []"
      and "list_all (\<lambda>c. c \<noteq> 34 \<and> c \<noteq> 39) pname"
      and "rx_exec matchIdPattern (utf16 ''find player named '' @ [34] @ pname @ [34]) = None"
  shows "parseNaturalQuery (utf16 ''find player named '' @ [34] @ pname @ [34]) =
     \<lparr>type = utf16 ''search_players'', params = [(''query'', Str pname)]\<rparr>"
proof -
  obtain m where
    "rx_exec playerNamePattern (utf16 ''find player named '' @ [34] @ pname @ [34]) = Some m"
    and "m 1 = Some pname"
    using find_named_playerName [OF assms(1,2)] by blast
  then show ?thesis
    using assms(3) by (simp add: parseNaturalQuery_def group_val_def)
qed

lemma Foo_text_no_match_id:
  "rx_exec matchIdPattern (utf16 ''find player named '' @ [34] @ utf16 ''Foo'' @ [34]) = None"
  by (simp add: utf16_def rx_defs char_defs)

theorem find_player_named_witness:
  "parseNaturalQuery (utf16 ''find player named \"Foo\"'') =
     \<lparr>type = utf16 ''search_players'', params = [(''query'', Str (utf16 ''Foo''))]\<rparr>"
proof -
  have 1: "utf16 ''Foo'' \<noteq> []" by (simp add: utf16_def)
  have 2: "list_all (\<lambda>c. c \<noteq> 34 \<and> c \<noteq> 39) (utf16 ''Foo'')" by (simp add: utf16_def)
  have 3: "utf16 ''find player named \"Foo\"'' =
      utf16 ''find player named '' @ [34] @ utf16 ''Foo'' @ [34]"
    by (simp add: utf16_def)
  from find_player_named [OF 1 2 Foo_text_no_match_id]
  show ?thesis by (simp only: 3)
qed

text \<open>
  Claim C9. \<open>parseNaturalQuery\<close> is a function defined on every string (its matcher
  is defined by terminating recursion and it has no failing branch); the tag of its
  result is one of the six operations, and never \<open>get_heroes\<close> or \<open>get_pro_matches\<close>.
\<close>

theorem parseNaturalQuery_type:
  "type (parseNaturalQuery query) \<in>
     {utf16 ''get_match'', utf16 ''search_players'', utf16 ''get_player'',
      utf16 ''get_player_recent_matches'', utf16 ''get_player_heroes'', utf16 ''search''}
   \<and> type (parseNaturalQuery query) \<noteq> utf16 ''get_heroes''
   \<and> type (parseNaturalQuery query) \<noteq> utf16 ''get_pro_matches''"
  by (simp add: parseNaturalQuery_def utf16_def split: option.split)

section \<open>The API client\<close>

text \<open>\<open>includes_str\<close> is the substring test.\<close>

lemma starts_with_iff: "starts_with s t \<longleftrightarrow> (\<exists>b. s = t @ b)"
  by (induction s t rule: starts_with.induct) auto

lemma includes_str_iff: "includes_str s t \<longleftrightarrow> (\<exists>a b. s = a @ t @ b)"
proof (induction s)
  case Nil
  then show ?case by auto
next
  case (Cons x xs)
  show ?case
  proof
    assume "includes_str (x # xs) t"
    then consider "starts_with (x # xs) t" | "includes_str xs t" by auto
    then show "\<exists>a b. x # xs = a @ t @ b"
    proof cases
      case 1
      then obtain b where "x # xs = t @ b" by (auto simp: starts_with_iff)
      then have "x # xs = [] @ t @ b" by simp
      then show ?thesis by blast
    next
      case 2
      then obtain a b where "xs = a @ t @ b" using Cons.IH by blast
      then have "x # xs = (x # a) @ t @ b" by simp
      then show ?thesis by blast
    qed
  next
    assume "\<exists>a b. x # xs = a @ t @ b"
    then obtain a b where ab: "x # xs = a @ t @ b" by blast
    show "includes_str (x # xs) t"
    proof (cases a)
      case Nil
      with ab have "starts_with (x # xs) t" by (auto simp: starts_with_iff)
      then show ?thesis by simp
    next
      case (Cons y ys)
      with ab have "xs = ys @ t @ b" by simp
      then have "includes_str xs t" using Cons.IH by blast
      then show ?thesis by simp
    qed
  qed
qed

text \<open>Every call of \<open>makeRequest\<close> issues exactly one request.\<close>

lemma makeRequest_requests:
  "\<exists>r. requests (snd (makeRequest h this endpoint p st)) = requests st @ [r]"
  by (auto simp: makeRequest_def Let_def alloc_def assign_prop_def
      split: option.splits sum.splits prod.splits)

lemma alloc_requests: "requests (snd (alloc obj st)) = requests st"
  by (simp add: alloc_def)

lemma makeRequest_requests_from:
  "requests st1 = requests st \<Longrightarrow>
     \<exists>r. requests (snd (makeRequest h this endpoint p st1)) = requests st @ [r]"
  using makeRequest_requests [of h this endpoint p st1] by simp

text \<open>
  So does every method of the client: a tool call that leaves the list of requests as
  it was has run no method of the client.
\<close>

lemma client_methods_request:
  "\<exists>r. requests (snd (getMatch h this v st)) = requests st @ [r]"
  "\<exists>r. requests (snd (getPlayer h this v st)) = requests st @ [r]"
  "\<exists>r. requests (snd (getPlayerMatches h this v opts st)) = requests st @ [r]"
  "\<exists>r. requests (snd (getPlayerRecentMatches h this v st)) = requests st @ [r]"
  "\<exists>r. requests (snd (getPlayerHeroes h this v st)) = requests st @ [r]"
  "\<exists>r. requests (snd (getHeroes h this st)) = requests st @ [r]"
  "\<exists>r. requests (snd (searchPlayers h this v st)) = requests st @ [r]"
  "\<exists>r. requests (snd (getProMatches h this st)) = requests st @ [r]"
  "\<exists>r. requests (snd (getPublicMatches h this st)) = requests st @ [r]"
  by (simp_all add: getMatch_def getPlayer_def getPlayerMatches_def getPlayerRecentMatches_def
       getPlayerHeroes_def getHeroes_def searchPlayers_def getProMatches_def
       getPublicMatches_def makeRequest_requests makeRequest_requests_from alloc_requests
       split_def Let_def split: option.split)

text \<open>When axios rejects the request it issued, \<open>makeRequest\<close> throws the client's error.\<close>

lemma status_or_500_response:
  "status_or_500 (map_option status r) =
     (case r of None \<Rightarrow> 500 | Some resp \<Rightarrow> if status resp = 0 then 500 else status resp)"
  by (cases r) (simp_all add: status_or_500_def)

lemma makeRequest_outcome:
  "\<exists>r st2. makeRequest h this endpoint p st =
     (case outcome_of h r of
        Inr response \<Rightarrow> Inr (data response)
      | Inl e \<Rightarrow> Inl (MCP (rejection_error h this e)),
      st2\<lparr>requests := requests st2 @ [r]\<rparr>)"
proof -
  define ps where "ps = (case p of None \<Rightarrow> alloc [] st | Some a \<Rightarrow> (a, st))"
  define st2 where
    "st2 = (case apiKey this of
              None \<Rightarrow> snd ps
            | Some k \<Rightarrow> if k = [] then snd ps
                        else assign_prop (fst ps) ''api_key'' (Str k) (snd ps))"
  define r where
    "r = \<lparr>req_url = baseURL this @ endpoint, req_params = object_at st2 (fst ps),
          req_timeout = timeout this, req_user_agent = userAgent this\<rparr>"
  have "makeRequest h this endpoint p st =
     (case outcome_of h r of
        Inr response \<Rightarrow> Inr (data response)
      | Inl e \<Rightarrow> Inl (MCP (rejection_error h this e)),
      st2\<lparr>requests := requests st2 @ [r]\<rparr>)"
    unfolding makeRequest_def Let_def split_def ps_def [symmetric]
    unfolding st2_def [symmetric]
    unfolding r_def [symmetric] outcome_of_def
    by (simp add: r_def rejection_error_def new_TimeoutError_def new_APIError_def
          new_MCPError_def status_or_500_response split: sum.split)
  then show ?thesis by blast
qed

lemma makeRequest_rejected:
  assumes "outcome_of h (last (requests (snd (makeRequest h this endpoint p st)))) = Inl e"
  shows "fst (makeRequest h this endpoint p st) = Inl (MCP (rejection_error h this e))"
proof -
  obtain r st2 where m: "makeRequest h this endpoint p st =
     (case outcome_of h r of
        Inr response \<Rightarrow> Inr (data response)
      | Inl e \<Rightarrow> Inl (MCP (rejection_error h this e)),
      st2\<lparr>requests := requests st2 @ [r]\<rparr>)"
    using makeRequest_outcome by blast
  from assms have "outcome_of h r = Inl e" by (simp add: m)
  then show ?thesis by (simp add: m)
qed

text \<open>
  Claim C4. Let \<open>makeRequest\<close> issue its request and axios reject it with the error
  \<open>e\<close>. If \<open>e\<close> has the code \<open>ECONNABORTED\<close> or its message contains \<open>timeout\<close>,
  what is thrown is a \<open>TimeoutError\<close>: its name, its code \<open>TIMEOUT_ERROR\<close> and its
  status code 408. Otherwise it is an \<open>APIError\<close>: its name, its code \<open>API_ERROR\<close>,
  as status code the status of the upstream response (500 when there is no response) and,
  in its details, the code of \<open>e\<close>, the body of the upstream response and \<open>e\<close> itself.
  An HTTP status is a three-digit number; the status 0, which is none, is left out.
\<close>

theorem makeRequest_failure:
  assumes "makeRequest h this endpoint p st = (res, st')"
      and "r = last (requests st')"
      and "axios_get h (req_url r) (req_params r) (req_timeout r) (req_user_agent r) = Inl e"
      and "\<forall>resp. err_response e = Some resp \<longrightarrow> status resp \<noteq> 0"
  shows "res =
     (if err_code e = Some (utf16 ''ECONNABORTED'')
         \<or> includes_str (err_message e) (utf16 ''timeout'')
      then Inl (MCP
             \<lparr>name = utf16 ''TimeoutError'',
              message = utf16 ''OpenDota API request timed out after ''
                          @ number_to_string h (timeout this) @ utf16 ''ms'',
              code = utf16 ''TIMEOUT_ERROR'',
              statusCode = 408,
              details = Some (TimeoutDetails e)\<rparr>)
      else Inl (MCP
             \<lparr>name = utf16 ''APIError'',
              message = utf16 ''OpenDota API request failed: '' @ err_message e,
              code = utf16 ''API_ERROR'',
              statusCode = (case err_response e of None \<Rightarrow> 500 | Some resp \<Rightarrow> status resp),
              details =
                Some (ApiDetails (err_code e) (map_option data (err_response e)) e)\<rparr>))"
proof -
  have "outcome_of h (last (requests (snd (makeRequest h this endpoint p st)))) = Inl e"
    using assms(1,2,3) by (simp add: outcome_of_def)
  then have "fst (makeRequest h this endpoint p st) = Inl (MCP (rejection_error h this e))"
    by (rule makeRequest_rejected)
  then have "res = Inl (MCP (rejection_error h this e))"
    using assms(1) by simp
  then show ?thesis
    using assms(4) by (auto simp: rejection_error_def split: option.splits)
qed

lemma not_timeout_404:
  "\<not> includes_str (utf16 ''Request failed with status code 404'') (utf16 ''timeout'')"
  by (simp add: utf16_def)

theorem makeRequest_failure_witness:
  "(\<forall>rt. fst (makeRequest (stub_host_404 rt) stub_client (utf16 ''/heroes'') None
            initial_state) =
     Inl (MCP
       \<lparr>name = utf16 ''APIError'',
        message = utf16 ''OpenDota API request failed: Request failed with status code 404'',
        code = utf16 ''API_ERROR'',
        statusCode = 404,
        details =
          Some (ApiDetails (Some (utf16 ''ERR_BAD_REQUEST''))
            (Some (JObj [(utf16 ''error'', JStr (utf16 ''not found''))]))
            \<lparr>err_code = Some (utf16 ''ERR_BAD_REQUEST''),
             err_message = utf16 ''Request failed with status code 404'',
             err_response =
               Some \<lparr>status = 404,
                     data = JObj [(utf16 ''error'', JStr (utf16 ''not found''))]\<rparr>\<rparr>)\<rparr>))
   \<and> (\<forall>rt. fst (makeRequest (stub_host_timeout rt) stub_client (utf16 ''/heroes'') None
            initial_state) =
     Inl (MCP
       \<lparr>name = utf16 ''TimeoutError'',
        message = utf16 ''OpenDota API request timed out after ''
                    @ number_to_string rt (Finite 30000) @ utf16 ''ms'',
        code = utf16 ''TIMEOUT_ERROR'',
        statusCode = 408,
        details =
          Some (TimeoutDetails
            \<lparr>err_code = Some (utf16 ''ECONNABORTED''),
             err_message = utf16 ''timeout of 30000ms exceeded'',
             err_response = None\<rparr>)\<rparr>))"
proof (intro conjI allI)
  fix rt
  let ?run = "makeRequest (stub_host_404 rt) stub_client (utf16 ''/heroes'') None initial_state"
  let ?r = "last (requests (snd ?run))"
  have 1: "?run = (fst ?run, snd ?run)" by simp
  have 3: "axios_get (stub_host_404 rt) (req_url ?r) (req_params ?r) (req_timeout ?r)
             (req_user_agent ?r) = Inl error_404"
    by (simp add: stub_host_404_def)
  have 4: "\<forall>resp. err_response error_404 = Some resp \<longrightarrow> status resp \<noteq> 0"
    by (simp add: error_404_def)
  have c: "err_code error_404 \<noteq> Some (utf16 ''ECONNABORTED'')"
    by (simp add: error_404_def utf16_def)
  have m: "err_message error_404 = utf16 ''Request failed with status code 404''"
    by (simp add: error_404_def)
  show "fst ?run = Inl (MCP
       \<lparr>name = utf16 ''APIError'',
        message = utf16 ''OpenDota API request failed: Request failed with status code 404'',
        code = utf16 ''API_ERROR'',
        statusCode = 404,
        details =
          Some (ApiDetails (Some (utf16 ''ERR_BAD_REQUEST''))
            (Some (JObj [(utf16 ''error'', JStr (utf16 ''not found''))]))
            \<lparr>err_code = Some (utf16 ''ERR_BAD_REQUEST''),
             err_message = utf16 ''Request failed with status code 404'',
             err_response =
               Some \<lparr>status = 404,
                     data = JObj [(utf16 ''error'', JStr (utf16 ''not found''))]\<rparr>\<rparr>)\<rparr>)"
    using makeRequest_failure [OF 1 refl 3 4] c not_timeout_404
    by (simp add: m) (simp add: error_404_def utf16_def)
next
  fix rt
  let ?run = "makeRequest (stub_host_timeout rt) stub_client (utf16 ''/heroes'') None
      initial_state"
  let ?r = "last (requests (snd ?run))"
  have 1: "?run = (fst ?run, snd ?run)" by simp
  have 3: "axios_get (stub_host_timeout rt) (req_url ?r) (req_params ?r) (req_timeout ?r)
             (req_user_agent ?r) = Inl error_timeout"
    by (simp add: stub_host_timeout_def)
  have 4: "\<forall>resp. err_response error_timeout = Some resp \<longrightarrow> status resp \<noteq> 0"
    by (simp add: error_timeout_def)
  have c: "err_code error_timeout = Some (utf16 ''ECONNABORTED'')"
    by (simp add: error_timeout_def)
  show "fst ?run = Inl (MCP
       \<lparr>name = utf16 ''TimeoutError'',
        message = utf16 ''OpenDota API request timed out after ''
                    @ number_to_string rt (Finite 30000) @ utf16 ''ms'',
        code = utf16 ''TIMEOUT_ERROR'',
        statusCode = 408,
        details =
          Some (TimeoutDetails
            \<lparr>err_code = Some (utf16 ''ECONNABORTED''),
             err_message = utf16 ''timeout of 30000ms exceeded'',
             err_response = None\<rparr>)\<rparr>)"
    using makeRequest_failure [OF 1 refl 3 4] c
    by (simp add: stub_host_timeout_def stub_client_def) (simp add: error_timeout_def)
qed

text \<open>
  Claim C10. With an API key configured (set and not empty), \<open>makeRequest\<close> writes
  \<open>api_key\<close> into the very object its caller passed: after \<open>makeRequest\<close>, and after
  \<open>getPlayerMatches\<close> with a caller's options object, that object on the heap holds
  the key, whatever the outcome of the request.
\<close>

lemma makeRequest_heap_key:
  assumes "apiKey this = Some k" and "k \<noteq> []" and "heap st a = Some obj"
  shows "heap (snd (makeRequest h this endpoint (Some a) st)) a =
           Some (AList.update ''api_key'' (Str k) obj)"
  using assms
  by (simp add: makeRequest_def Let_def assign_prop_def object_at_def split: sum.splits)

theorem api_key_written_into_caller_object:
  assumes "apiKey this = Some k" and "k \<noteq> []" and "heap st a = Some obj"
  shows "heap (snd (makeRequest h this endpoint (Some a) st)) a =
           Some (AList.update ''api_key'' (Str k) obj)
       \<and> heap (snd (getPlayerMatches h this accountId (Some a) st)) a =
           Some (AList.update ''api_key'' (Str k) obj)
       \<and> get_prop (object_at (snd (getPlayerMatches h this accountId (Some a) st)) a)
            ''api_key'' = Str k"
  using assms
  by (simp add: getPlayerMatches_def makeRequest_heap_key object_at_def get_prop_def
        update_conv')

theorem api_key_written_into_caller_object_witness:
  "\<forall>rt. heap (snd (getPlayerMatches (stub_host_404 rt) stub_client (Num (Finite 123456789))
       (Some 0)
       (initial_state\<lparr>heap := (\<lambda>a. None)(0 \<mapsto>
          [(''limit'', Num (Finite 10)), (''hero_id'', Num (Finite 1))]), next_ref := 1\<rparr>))) 0
     = Some [(''limit'', Num (Finite 10)), (''hero_id'', Num (Finite 1)),
             (''api_key'', Str (utf16 ''test-api-key''))]"
proof
  fix rt
  let ?st = "initial_state\<lparr>heap := (\<lambda>a. None)(0 \<mapsto>
          [(''limit'', Num (Finite 10)), (''hero_id'', Num (Finite 1))]), next_ref := 1\<rparr>"
  have 1: "apiKey stub_client = Some (utf16 ''test-api-key'')" by (simp add: stub_client_def)
  have 2: "utf16 ''test-api-key'' \<noteq> []" by (simp add: utf16_def)
  have 3: "heap ?st 0 = Some [(''limit'', Num (Finite 10)), (''hero_id'', Num (Finite 1))]"
    by simp
  from api_key_written_into_caller_object
         [OF 1 2 3, of "stub_host_404 rt" "[]" "Num (Finite 123456789)"]
  show "heap (snd (getPlayerMatches (stub_host_404 rt) stub_client (Num (Finite 123456789))
       (Some 0) ?st)) 0
     = Some [(''limit'', Num (Finite 10)), (''hero_id'', Num (Finite 1)),
             (''api_key'', Str (utf16 ''test-api-key''))]"
    by simp
qed

section \<open>The tool request handler\<close>

lemma tool_names_distinct:
  "utf16 ''natural_query'' \<noteq> utf16 ''get_match''"
  "utf16 ''natural_query'' \<noteq> utf16 ''get_player''"
  "utf16 ''natural_query'' \<noteq> utf16 ''get_player_matches''"
  "utf16 ''natural_query'' \<noteq> utf16 ''get_player_recent_matches''"
  "utf16 ''natural_query'' \<noteq> utf16 ''get_player_heroes''"
  "utf16 ''natural_query'' \<noteq> utf16 ''search_players''"
  "utf16 ''natural_query'' \<noteq> utf16 ''get_heroes''"
  "utf16 ''natural_query'' \<noteq> utf16 ''get_pro_matches''"
  by (simp_all add: utf16_def)

lemma search_tag_distinct:
  "utf16 ''search'' \<noteq> utf16 ''get_match''"
  "utf16 ''search'' \<noteq> utf16 ''get_player''"
  "utf16 ''search'' \<noteq> utf16 ''search_players''"
  "utf16 ''search'' \<noteq> utf16 ''get_player_recent_matches''"
  "utf16 ''search'' \<noteq> utf16 ''get_player_heroes''"
  by (simp_all add: utf16_def)

text \<open>
  Any failure of the schema of \<open>get_match\<close> is reported as a \<open>ValidationError\<close>,
  and the state gains nothing but the log record.
\<close>

lemma get_match_validation_failure:
  assumes "GetMatchSchema args = Inl issues"
  shows "call_tool h client (utf16 ''get_match'') args st =
     (\<lparr>content = [TextContent (error_text h
          (new_ValidationError (utf16 ''Invalid tool arguments'') (Some (ZodDetails issues))))],
       isError = Some True\<rparr>,
      log_tool \<lparr>toolName = utf16 ''get_match'', arguments = args, success = False,
        error = Some (new_ValidationError (utf16 ''Invalid tool arguments'')
                  (Some (ZodDetails issues)))\<rparr> st)"
  using assms by (simp add: call_tool_def try_block_def catch_block_def to_MCPError_def Let_def)

text \<open>
  Claim C3. The tool \<open>get_match\<close>, called with an argument object that has no key
  \<open>match_id\<close>, answers with an error envelope; the error handed to the logger is a
  \<open>ValidationError\<close> with status code 400; and no request has been issued: the list of
  requests is as before, so no method of the client ran.
\<close>

theorem get_match_without_match_id:
  assumes "map_of kvs (utf16 ''match_id'') = None"
  shows "isError (fst (call_tool h client (utf16 ''get_match'') (Some (JObj kvs)) st)) = Some True
    \<and> snd (call_tool h client (utf16 ''get_match'') (Some (JObj kvs)) st) =
        log_tool
          \<lparr>toolName = utf16 ''get_match'', arguments = Some (JObj kvs), success = False,
           error = Some (new_ValidationError (utf16 ''Invalid tool arguments'')
                    (Some (ZodDetails [InvalidType [''match_id''] ''number'' ''undefined''])))\<rparr>
          st
    \<and> requests (snd (call_tool h client (utf16 ''get_match'') (Some (JObj kvs)) st)) =
        requests st
    \<and> name (new_ValidationError (utf16 ''Invalid tool arguments'')
               (Some (ZodDetails [InvalidType [''match_id''] ''number'' ''undefined''])))
         = utf16 ''ValidationError''
    \<and> statusCode (new_ValidationError (utf16 ''Invalid tool arguments'')
               (Some (ZodDetails [InvalidType [''match_id''] ''number'' ''undefined''])))
         = 400"
  using assms
  by (simp add: call_tool_def try_block_def GetMatchSchema_def z_object_def z_number_def
       issues_of_def parsed_type_def catch_block_def to_MCPError_def log_tool_def Let_def
       new_ValidationError_def new_MCPError_def)

theorem get_match_without_match_id_witness:
  "\<forall>rt.
     isError (fst (call_tool (stub_host_404 rt) stub_client (utf16 ''get_match'')
       (Some (JObj [])) initial_state)) = Some True
   \<and> content (fst (call_tool (stub_host_404 rt) stub_client (utf16 ''get_match'')
       (Some (JObj [])) initial_state)) = [TextContent (utf16 ''Error: Invalid tool arguments'')]
   \<and> requests (snd (call_tool (stub_host_404 rt) stub_client (utf16 ''get_match'')
       (Some (JObj [])) initial_state)) = []"
proof
  fix rt
  let ?run = "call_tool (stub_host_404 rt) stub_client (utf16 ''get_match'') (Some (JObj []))
      initial_state"
  have 1: "map_of ([] :: (jsstring \<times> json) list) (utf16 ''match_id'') = None" by simp
  have 2: "content (fst ?run) = [TextContent (utf16 ''Error: Invalid tool arguments'')]"
    by (simp add: call_tool_def try_block_def GetMatchSchema_def z_object_def z_number_def
       issues_of_def parsed_type_def catch_block_def to_MCPError_def Let_def error_text_def
       new_ValidationError_def new_MCPError_def stub_host_404_def utf16_def)
  from get_match_without_match_id [OF 1, of "stub_host_404 rt" stub_client initial_state] 2
  show "isError (fst ?run) = Some True
      \<and> content (fst ?run) = [TextContent (utf16 ''Error: Invalid tool arguments'')]
      \<and> requests (snd ?run) = []"
    by (simp add: initial_state_def log_tool_def)
qed

text \<open>
  Claim C5. When none of the five patterns matches the query, \<open>parseNaturalQuery\<close>
  returns the operation \<open>search\<close> with the query itself as its parameter, and the tool
  \<open>natural_query\<close> answers with an explanatory text that quotes the query; the state
  is unchanged, so no request has been issued and no method of the client ran.
\<close>

theorem natural_query_fallback:
  assumes "rx_exec matchIdPattern query = None"
      and "rx_exec playerNamePattern query = None"
      and "rx_exec playerIdPattern query = None"
      and "rx_exec recentMatchesPattern query = None"
      and "rx_exec playerHeroesPattern query = None"
      and "map_of kvs (utf16 ''query'') = Some (JStr query)"
  shows "parseNaturalQuery query = \<lparr>type = utf16 ''search'', params = [(''query'', Str query)]\<rparr>
    \<and> call_tool h client (utf16 ''natural_query'') (Some (JObj kvs)) st =
        (\<lparr>content = [TextContent
            (utf16 ''I couldn't understand your query: '' @ [34] @ query @ [34]
              @ utf16 ''. Please try asking about specific matches, players, or use one of the available tools.'')],
          isError = None\<rparr>, st)"
proof -
  have p: "parseNaturalQuery query =
      \<lparr>type = utf16 ''search'', params = [(''query'', Str query)]\<rparr>"
    using assms by (simp add: parseNaturalQuery_def)
  have s: "NaturalQuerySchema (Some (JObj kvs)) = Inr [(''query'', Str query)]"
    using assms(6)
    by (simp add: NaturalQuerySchema_def z_object_def z_string_def issues_of_def value_of_def)
  have "natural_query h client query st =
        (Inr (text_response
            (utf16 ''I couldn't understand your query: '' @ [34] @ query @ [34]
              @ utf16 ''. Please try asking about specific matches, players, or use one of the available tools.'')), st)"
    by (simp add: natural_query_def p search_tag_distinct Let_def)
  then show ?thesis
    using p
    by (simp add: call_tool_def try_block_def tool_names_distinct s get_prop_def
          text_response_def)
qed

lemma meaning_of_life_no_match:
  "rx_exec matchIdPattern (utf16 ''what is the meaning of life'') = None"
  "rx_exec playerNamePattern (utf16 ''what is the meaning of life'') = None"
  "rx_exec playerIdPattern (utf16 ''what is the meaning of life'') = None"
  "rx_exec recentMatchesPattern (utf16 ''what is the meaning of life'') = None"
  "rx_exec playerHeroesPattern (utf16 ''what is the meaning of life'') = None"
  by (simp_all add: utf16_def rx_defs char_defs)

theorem natural_query_fallback_witness:
  "parseNaturalQuery (utf16 ''what is the meaning of life'') =
     \<lparr>type = utf16 ''search'',
      params = [(''query'', Str (utf16 ''what is the meaning of life''))]\<rparr>
   \<and> (\<forall>h client st.
        call_tool h client (utf16 ''natural_query'')
          (Some (JObj [(utf16 ''query'', JStr (utf16 ''what is the meaning of life''))])) st =
        (\<lparr>content = [TextContent
            (utf16 ''I couldn't understand your query: '' @ [34]
              @ utf16 ''what is the meaning of life'' @ [34]
              @ utf16 ''. Please try asking about specific matches, players, or use one of the available tools.'')],
          isError = None\<rparr>, st))"
proof -
  have 6: "map_of [(utf16 ''query'', JStr (utf16 ''what is the meaning of life''))]
      (utf16 ''query'') = Some (JStr (utf16 ''what is the meaning of life''))"
    by simp
  show ?thesis
    using natural_query_fallback [OF meaning_of_life_no_match 6] by blast
qed

text \<open>
  What the \<open>try\<close> block can throw: a \<open>ZodError\<close> of a schema, an error of the
  client, or the \<open>Error\<close> for an unknown tool name.
\<close>

lemma makeRequest_throws:
  "makeRequest h this ep p st = (Inl e, st') \<Longrightarrow> client_error e"
  by (auto simp: makeRequest_def Let_def client_error_def new_TimeoutError_def new_APIError_def
        new_MCPError_def split: option.splits sum.splits prod.splits if_splits)

lemma client_methods_throw:
  "getMatch h this v st = (Inl e, st') \<Longrightarrow> client_error e"
  "getPlayer h this v st = (Inl e, st') \<Longrightarrow> client_error e"
  "getPlayerMatches h this v opts st = (Inl e, st') \<Longrightarrow> client_error e"
  "getPlayerRecentMatches h this v st = (Inl e, st') \<Longrightarrow> client_error e"
  "getPlayerHeroes h this v st = (Inl e, st') \<Longrightarrow> client_error e"
  "getHeroes h this st = (Inl e, st') \<Longrightarrow> client_error e"
  "searchPlayers h this v st = (Inl e, st') \<Longrightarrow> client_error e"
  "getProMatches h this st = (Inl e, st') \<Longrightarrow> client_error e"
  "getPublicMatches h this st = (Inl e, st') \<Longrightarrow> client_error e"
  by (auto simp: getMatch_def getPlayer_def getPlayerMatches_def getPlayerRecentMatches_def
        getPlayerHeroes_def getHeroes_def searchPlayers_def getProMatches_def
        getPublicMatches_def Let_def
      split: prod.splits dest: makeRequest_throws)

lemma reply_with_throws: "reply_with h label r = (Inl e, st') \<Longrightarrow> r = (Inl e, st')"
  by (auto simp: reply_with_def split: prod.splits sum.splits)

lemma natural_query_throws:
  "natural_query h client q st = (Inl e, st') \<Longrightarrow> client_error e"
  by (auto simp: natural_query_def Let_def split: if_splits
      dest!: reply_with_throws dest: client_methods_throw)

lemma schema_query_is_string:
  "z_object [(''query'', z_string)] args = Inr a \<Longrightarrow> \<exists>q. get_prop a ''query'' = Str q"
  by (auto simp: z_object_def z_string_def issues_of_def value_of_def get_prop_def Let_def
      split: option.splits json.splits if_splits)

lemma try_block_throws:
  assumes "try_block h client nm args st = (Inl e, st')"
  shows "(\<exists>issues. e = ZodError issues) \<or> client_error e
       \<or> e = Other (PlainError (utf16 ''Unknown tool: '' @ nm))"
  using assms schema_query_is_string [of args]
  by (auto simp: try_block_def NaturalQuerySchema_def Let_def
      split: if_splits sum.splits prod.splits jsval.splits
      dest!: reply_with_throws dest: client_methods_throw natural_query_throws)

text \<open>What the \<open>try\<close> block returns is returned unchanged, without an error flag.\<close>

lemma reply_with_isError:
  "reply_with h label r = (Inr resp, st1) \<Longrightarrow> isError resp = None"
  by (auto simp: reply_with_def text_response_def split: prod.splits sum.splits)

lemma call_tool_success:
  "try_block h client nm args st = (Inr resp, st1) \<Longrightarrow> call_tool h client nm args st = (resp, st1)"
  by (simp add: call_tool_def)

text \<open>
  A rejection by axios reaches the \<open>catch\<close> block: the methods of the client throw the
  client's error, \<open>reply_with\<close> and the \<open>switch\<close> of \<open>natural_query\<close> let it pass, and
  so does the \<open>try\<close> block.
\<close>

lemma makeRequest_rejected_at:
  assumes "requests (snd (makeRequest h this endpoint p st)) = rs @ [q]"
      and "outcome_of h q = Inl e"
  shows "fst (makeRequest h this endpoint p st) = Inl (MCP (rejection_error h this e))"
  using assms by (intro makeRequest_rejected) simp

lemma client_methods_rejected:
  "\<lbrakk>requests (snd (getMatch h this v st)) = rs @ [q]; outcome_of h q = Inl e\<rbrakk> \<Longrightarrow>
     fst (getMatch h this v st) = Inl (MCP (rejection_error h this e))"
  "\<lbrakk>requests (snd (getPlayer h this v st)) = rs @ [q]; outcome_of h q = Inl e\<rbrakk> \<Longrightarrow>
     fst (getPlayer h this v st) = Inl (MCP (rejection_error h this e))"
  "\<lbrakk>requests (snd (getPlayerMatches h this v opts st)) = rs @ [q]; outcome_of h q = Inl e\<rbrakk>
     \<Longrightarrow> fst (getPlayerMatches h this v opts st) = Inl (MCP (rejection_error h this e))"
  "\<lbrakk>requests (snd (getPlayerRecentMatches h this v st)) = rs @ [q]; outcome_of h q = Inl e\<rbrakk>
     \<Longrightarrow> fst (getPlayerRecentMatches h this v st) = Inl (MCP (rejection_error h this e))"
  "\<lbrakk>requests (snd (getPlayerHeroes h this v st)) = rs @ [q]; outcome_of h q = Inl e\<rbrakk> \<Longrightarrow>
     fst (getPlayerHeroes h this v st) = Inl (MCP (rejection_error h this e))"
  "\<lbrakk>requests (snd (getHeroes h this st)) = rs @ [q]; outcome_of h q = Inl e\<rbrakk> \<Longrightarrow>
     fst (getHeroes h this st) = Inl (MCP (rejection_error h this e))"
  "\<lbrakk>requests (snd (searchPlayers h this v st)) = rs @ [q]; outcome_of h q = Inl e\<rbrakk> \<Longrightarrow>
     fst (searchPlayers h this v st) = Inl (MCP (rejection_error h this e))"
  "\<lbrakk>requests (snd (getProMatches h this st)) = rs @ [q]; outcome_of h q = Inl e\<rbrakk> \<Longrightarrow>
     fst (getProMatches h this st) = Inl (MCP (rejection_error h this e))"
  "\<lbrakk>requests (snd (getPublicMatches h this st)) = rs @ [q]; outcome_of h q = Inl e\<rbrakk> \<Longrightarrow>
     fst (getPublicMatches h this st) = Inl (MCP (rejection_error h this e))"
  unfolding getMatch_def getPlayer_def getPlayerMatches_def getPlayerRecentMatches_def
    getPlayerHeroes_def getHeroes_def searchPlayers_def getProMatches_def
    getPublicMatches_def Let_def split_def
  by (erule makeRequest_rejected_at, assumption)+

lemma reply_with_snd: "snd (reply_with h label r) = snd r"
  by (cases r, cases "fst r") (simp_all add: reply_with_def)

lemma reply_with_fst_thrown: "fst r = Inl e \<Longrightarrow> fst (reply_with h label r) = Inl e"
  by (cases r) (simp add: reply_with_def)

lemma reply_with_rejected:
  assumes "requests (snd (reply_with h label res)) = rs @ [q]"
      and "requests (snd res) = rs @ [q] \<Longrightarrow> fst res = Inl x"
  shows "fst (reply_with h label res) = Inl x"
  using assms by (simp add: reply_with_snd reply_with_fst_thrown)

lemma natural_query_rejected:
  assumes "requests (snd (natural_query h client query st)) = requests st @ [q]"
      and "outcome_of h q = Inl e"
  shows "fst (natural_query h client query st) = Inl (MCP (rejection_error h client e))"
  using assms unfolding natural_query_def Let_def
  apply (simp add: utf16_def split: if_splits)
      apply (erule reply_with_rejected, erule client_methods_rejected, assumption)+
  done

lemma schema_branch_rejected:
  assumes "requests (snd (case s of Inl issues \<Rightarrow> (Inl (ZodError issues), st)
                          | Inr a \<Rightarrow> body a)) = requests st @ [q]"
      and "\<And>a. requests (snd (body a)) = requests st @ [q] \<Longrightarrow> fst (body a) = Inl x"
  shows "fst (case s of Inl issues \<Rightarrow> (Inl (ZodError issues), st) | Inr a \<Rightarrow> body a) = Inl x"
  using assms by (cases s) simp_all

lemma get_match_reply_rejected:
  assumes "requests (snd (case res of
                      (Inl x, st1) \<Rightarrow> (Inl x, st1)
                    | (Inr m, st1) \<Rightarrow> (Inr (f m), log_tool entry st1))) = rs @ [q]"
      and "requests (snd res) = rs @ [q] \<Longrightarrow> fst res = Inl x"
  shows "fst (case res of
                (Inl x, st1) \<Rightarrow> (Inl x, st1)
              | (Inr m, st1) \<Rightarrow> (Inr (f m), log_tool entry st1)) = Inl x"
  using assms by (cases res, cases "fst res") (simp_all add: log_tool_def)

lemma pair_branch_rejected:
  assumes "requests (snd (case pr of (p, st1) \<Rightarrow> body p st1)) = rs"
      and "requests (snd (body (fst pr) (snd pr))) = rs \<Longrightarrow> fst (body (fst pr) (snd pr)) = y"
  shows "fst (case pr of (p, st1) \<Rightarrow> body p st1) = y"
  using assms by (cases pr) simp

lemma query_branch_rejected:
  assumes "requests (snd (case v of Str query \<Rightarrow> body query | _ \<Rightarrow> (Inl y, st)))
             = requests st @ [q]"
      and "\<And>query. requests (snd (body query)) = requests st @ [q]
             \<Longrightarrow> fst (body query) = Inl x"
  shows "fst (case v of Str query \<Rightarrow> body query | _ \<Rightarrow> (Inl y, st)) = Inl x"
  using assms by (cases v) simp_all

lemma try_block_rejected:
  assumes "requests (snd (try_block h client nm args st)) = requests st @ [q]"
      and "outcome_of h q = Inl e"
  shows "fst (try_block h client nm args st) = Inl (MCP (rejection_error h client e))"
  using assms unfolding try_block_def Let_def
  apply (simp add: utf16_def split: if_splits)
          apply (erule schema_branch_rejected, erule get_match_reply_rejected,
                 erule client_methods_rejected, assumption)
         apply (erule schema_branch_rejected, erule reply_with_rejected,
                erule client_methods_rejected, assumption)
        apply (erule schema_branch_rejected, erule pair_branch_rejected,
               erule reply_with_rejected, erule client_methods_rejected, assumption)
       apply (erule schema_branch_rejected, erule reply_with_rejected,
              erule client_methods_rejected, assumption)
      apply (erule schema_branch_rejected, erule reply_with_rejected,
             erule client_methods_rejected, assumption)
     apply (erule schema_branch_rejected, erule reply_with_rejected,
            erule client_methods_rejected, assumption)
    apply (erule reply_with_rejected, erule client_methods_rejected, assumption)
   apply (erule reply_with_rejected, erule client_methods_rejected, assumption)
  apply (erule schema_branch_rejected, erule query_branch_rejected,
         erule natural_query_rejected, assumption)
  done

lemma call_tool_requests:
  "requests (snd (call_tool h client nm args st))
     = requests (snd (try_block h client nm args st))"
  by (cases "try_block h client nm args st", cases "fst (try_block h client nm args st)")
     (simp_all add: call_tool_def catch_block_def log_tool_def Let_def)

lemma call_tool_thrown:
  assumes "fst (try_block h client nm args st) = Inl e"
  shows "fst (call_tool h client nm args st) =
           \<lparr>content = [TextContent (error_text h (to_MCPError h e))], isError = Some True\<rparr>"
  using assms
  by (cases "try_block h client nm args st") (simp add: call_tool_def catch_block_def Let_def)

lemma call_tool_rejected:
  assumes "requests (snd (call_tool h client nm args st)) = requests st @ [q]"
      and "outcome_of h q = Inl e"
  shows "fst (call_tool h client nm args st) =
           \<lparr>content = [TextContent (error_text h (rejection_error h client e))],
            isError = Some True\<rparr>"
proof -
  have "fst (try_block h client nm args st) = Inl (MCP (rejection_error h client e))"
    using assms by (simp add: call_tool_requests try_block_rejected)
  then show ?thesis
    by (simp add: call_tool_thrown to_MCPError_def)
qed

text \<open>A violation of a tool's schema reaches the \<open>catch\<close> block, and so does an unknown name.\<close>

lemma try_block_schema_violation:
  assumes "(nm, schema) \<in> set
             [(utf16 ''get_match'', GetMatchSchema),
              (utf16 ''get_player'', GetPlayerSchema),
              (utf16 ''get_player_matches'', GetPlayerMatchesSchema),
              (utf16 ''get_player_recent_matches'', GetPlayerSchema),
              (utf16 ''get_player_heroes'', GetPlayerSchema),
              (utf16 ''search_players'', SearchPlayersSchema),
              (utf16 ''natural_query'', NaturalQuerySchema)]"
      and "schema args = Inl issues"
  shows "fst (try_block h client nm args st) = Inl (ZodError issues)"
proof -
  have names: "utf16 ''get_player'' \<noteq> utf16 ''get_match''"
    "utf16 ''get_player_matches'' \<noteq> utf16 ''get_match''"
    "utf16 ''get_player_matches'' \<noteq> utf16 ''get_player''"
    "utf16 ''get_player_recent_matches'' \<noteq> utf16 ''get_match''"
    "utf16 ''get_player_recent_matches'' \<noteq> utf16 ''get_player''"
    "utf16 ''get_player_recent_matches'' \<noteq> utf16 ''get_player_matches''"
    "utf16 ''get_player_heroes'' \<noteq> utf16 ''get_match''"
    "utf16 ''get_player_heroes'' \<noteq> utf16 ''get_player''"
    "utf16 ''get_player_heroes'' \<noteq> utf16 ''get_player_matches''"
    "utf16 ''get_player_heroes'' \<noteq> utf16 ''get_player_recent_matches''"
    "utf16 ''search_players'' \<noteq> utf16 ''get_match''"
    "utf16 ''search_players'' \<noteq> utf16 ''get_player''"
    "utf16 ''search_players'' \<noteq> utf16 ''get_player_matches''"
    "utf16 ''search_players'' \<noteq> utf16 ''get_player_recent_matches''"
    "utf16 ''search_players'' \<noteq> utf16 ''get_player_heroes''"
    "utf16 ''natural_query'' \<noteq> utf16 ''get_match''"
    "utf16 ''natural_query'' \<noteq> utf16 ''get_player''"
    "utf16 ''natural_query'' \<noteq> utf16 ''get_player_matches''"
    "utf16 ''natural_query'' \<noteq> utf16 ''get_player_recent_matches''"
    "utf16 ''natural_query'' \<noteq> utf16 ''get_player_heroes''"
    "utf16 ''natural_query'' \<noteq> utf16 ''search_players''"
    "utf16 ''natural_query'' \<noteq> utf16 ''get_heroes''"
    "utf16 ''natural_query'' \<noteq> utf16 ''get_pro_matches''"
    by (simp_all add: utf16_def)
  from assms(1) consider
      "nm = utf16 ''get_match''" "schema = GetMatchSchema"
    | "nm = utf16 ''get_player''" "schema = GetPlayerSchema"
    | "nm = utf16 ''get_player_matches''" "schema = GetPlayerMatchesSchema"
    | "nm = utf16 ''get_player_recent_matches''" "schema = GetPlayerSchema"
    | "nm = utf16 ''get_player_heroes''" "schema = GetPlayerSchema"
    | "nm = utf16 ''search_players''" "schema = SearchPlayersSchema"
    | "nm = utf16 ''natural_query''" "schema = NaturalQuerySchema"
    by auto
  then show ?thesis
  proof cases
    case 1 with assms(2) show ?thesis by (simp add: try_block_def)
  next
    case 2 with assms(2) names show ?thesis by (simp add: try_block_def)
  next
    case 3 with assms(2) names show ?thesis by (simp add: try_block_def)
  next
    case 4 with assms(2) names show ?thesis by (simp add: try_block_def)
  next
    case 5 with assms(2) names show ?thesis by (simp add: try_block_def)
  next
    case 6 with assms(2) names show ?thesis by (simp add: try_block_def)
  next
    case 7 with assms(2) names show ?thesis by (simp add: try_block_def)
  qed
qed

lemma try_block_unknown_tool:
  assumes "nm \<notin> set
             [utf16 ''get_match'', utf16 ''get_player'', utf16 ''get_player_matches'',
              utf16 ''get_player_recent_matches'', utf16 ''get_player_heroes'',
              utf16 ''search_players'', utf16 ''get_heroes'', utf16 ''get_pro_matches'',
              utf16 ''natural_query'']"
  shows "try_block h client nm args st =
           (Inl (Other (PlainError (utf16 ''Unknown tool: '' @ nm))), st)"
  using assms by (simp add: try_block_def)

text \<open>
  Claim C7. A tool call that fails answers with an envelope that has \<open>isError: true\<close>
  and the text \<open>Error: \<close> followed by the message of the error; the details of the error
  follow the message only if \<open>NODE_ENV\<close> is \<open>development\<close>. In four parts:

  \<^enum> whatever the \<open>try\<close> block throws is made an \<open>MCPError\<close> (a schema violation a
    \<open>ValidationError\<close> with the message \<open>Invalid tool arguments\<close>, an \<open>MCPError\<close>
    itself, any other \<open>Error\<close> an \<open>MCPError\<close> with its message and the code
    \<open>TOOL_EXECUTION_ERROR\<close>, any other value one with the code \<open>UNKNOWN_ERROR\<close>),
    reported in the envelope and logged;
  \<^enum> arguments that violate the schema of the tool are reported so;
  \<^enum> when the call has issued a request and axios has rejected it, the envelope reports
    the error of the client: a timeout, or the failure with the message of axios;
  \<^enum> a name that is none of the nine tools is reported as an unknown tool.
\<close>

theorem thrown_error_is_reported:
  "(\<forall>e st1. try_block h client nm args st = (Inl e, st1) \<longrightarrow>
      call_tool h client nm args st =
        (\<lparr>content =
            [TextContent (utf16 ''Error: '' @ message (to_MCPError h e) @
               (if env h ''NODE_ENV'' = Some (utf16 ''development'') then
                  (case details (to_MCPError h e) of
                     None \<Rightarrow> []
                   | Some d \<Rightarrow> [10, 10] @ utf16 ''Details: '' @ stringify_details h d)
                else []))],
          isError = Some True\<rparr>,
         st1\<lparr>tool_log := tool_log st1 @
               [\<lparr>toolName = nm, arguments = args, success = False,
                 error = Some (to_MCPError h e)\<rparr>]\<rparr>)
      \<and> to_MCPError h e =
          (case e of
             ZodError issues \<Rightarrow>
               \<lparr>name = utf16 ''ValidationError'', message = utf16 ''Invalid tool arguments'',
                code = utf16 ''VALIDATION_ERROR'', statusCode = 400,
                details = Some (ZodDetails issues)\<rparr>
           | MCP m \<Rightarrow> m
           | Other (PlainError msg) \<Rightarrow>
               \<lparr>name = utf16 ''MCPError'', message = msg,
                code = utf16 ''TOOL_EXECUTION_ERROR'', statusCode = 500,
                details = Some (OriginalError (PlainError msg))\<rparr>
           | Other (NonError v) \<Rightarrow>
               \<lparr>name = utf16 ''MCPError'', message = to_string h v,
                code = utf16 ''UNKNOWN_ERROR'', statusCode = 500,
                details = Some (OriginalError (NonError v))\<rparr>))
   \<and> (\<forall>schema issues.
        (nm, schema) \<in> set
          [(utf16 ''get_match'', GetMatchSchema),
           (utf16 ''get_player'', GetPlayerSchema),
           (utf16 ''get_player_matches'', GetPlayerMatchesSchema),
           (utf16 ''get_player_recent_matches'', GetPlayerSchema),
           (utf16 ''get_player_heroes'', GetPlayerSchema),
           (utf16 ''search_players'', SearchPlayersSchema),
           (utf16 ''natural_query'', NaturalQuerySchema)]
        \<and> schema args = Inl issues \<longrightarrow>
        fst (call_tool h client nm args st) =
          \<lparr>content =
             [TextContent (utf16 ''Error: '' @ utf16 ''Invalid tool arguments'' @
                (if env h ''NODE_ENV'' = Some (utf16 ''development'')
                 then [10, 10] @ utf16 ''Details: '' @ stringify_details h (ZodDetails issues)
                 else []))],
           isError = Some True\<rparr>)
   \<and> (\<forall>r e.
        requests (snd (call_tool h client nm args st)) = requests st @ [r]
        \<and> axios_get h (req_url r) (req_params r) (req_timeout r) (req_user_agent r) = Inl e
        \<longrightarrow>
        fst (call_tool h client nm args st) =
          \<lparr>content =
             [TextContent (utf16 ''Error: '' @
                (if err_code e = Some (utf16 ''ECONNABORTED'')
                    \<or> includes_str (err_message e) (utf16 ''timeout'')
                 then utf16 ''OpenDota API request timed out after ''
                        @ number_to_string h (timeout client) @ utf16 ''ms''
                 else utf16 ''OpenDota API request failed: '' @ err_message e) @
                (if env h ''NODE_ENV'' = Some (utf16 ''development'')
                 then [10, 10] @ utf16 ''Details: '' @
                   stringify_details h
                     (if err_code e = Some (utf16 ''ECONNABORTED'')
                         \<or> includes_str (err_message e) (utf16 ''timeout'')
                      then TimeoutDetails e
                      else ApiDetails (err_code e) (map_option data (err_response e)) e)
                 else []))],
           isError = Some True\<rparr>)
   \<and> (nm \<notin> set
         [utf16 ''get_match'', utf16 ''get_player'', utf16 ''get_player_matches'',
          utf16 ''get_player_recent_matches'', utf16 ''get_player_heroes'',
          utf16 ''search_players'', utf16 ''get_heroes'', utf16 ''get_pro_matches'',
          utf16 ''natural_query''] \<longrightarrow>
        fst (call_tool h client nm args st) =
          \<lparr>content =
             [TextContent (utf16 ''Error: '' @ utf16 ''Unknown tool: '' @ nm @
                (if env h ''NODE_ENV'' = Some (utf16 ''development'')
                 then [10, 10] @ utf16 ''Details: '' @
                   stringify_details h
                     (OriginalError (PlainError (utf16 ''Unknown tool: '' @ nm)))
                 else []))],
           isError = Some True\<rparr>)"
proof (intro conjI allI impI)
  fix e st1
  assume "try_block h client nm args st = (Inl e, st1)"
  then show "call_tool h client nm args st =
        (\<lparr>content =
            [TextContent (utf16 ''Error: '' @ message (to_MCPError h e) @
               (if env h ''NODE_ENV'' = Some (utf16 ''development'') then
                  (case details (to_MCPError h e) of
                     None \<Rightarrow> []
                   | Some d \<Rightarrow> [10, 10] @ utf16 ''Details: '' @ stringify_details h d)
                else []))],
          isError = Some True\<rparr>,
         st1\<lparr>tool_log := tool_log st1 @
               [\<lparr>toolName = nm, arguments = args, success = False,
                 error = Some (to_MCPError h e)\<rparr>]\<rparr>)"
    by (simp add: call_tool_def catch_block_def error_text_def Let_def log_tool_def)
next
  fix e :: thrown and st1 :: state
  show "to_MCPError h e =
          (case e of
             ZodError issues \<Rightarrow>
               \<lparr>name = utf16 ''ValidationError'', message = utf16 ''Invalid tool arguments'',
                code = utf16 ''VALIDATION_ERROR'', statusCode = 400,
                details = Some (ZodDetails issues)\<rparr>
           | MCP m \<Rightarrow> m
           | Other (PlainError msg) \<Rightarrow>
               \<lparr>name = utf16 ''MCPError'', message = msg,
                code = utf16 ''TOOL_EXECUTION_ERROR'', statusCode = 500,
                details = Some (OriginalError (PlainError msg))\<rparr>
           | Other (NonError v) \<Rightarrow>
               \<lparr>name = utf16 ''MCPError'', message = to_string h v,
                code = utf16 ''UNKNOWN_ERROR'', statusCode = 500,
                details = Some (OriginalError (NonError v))\<rparr>)"
    by (simp add: to_MCPError_def new_ValidationError_def new_MCPError_def
        split: thrown.split other_error.split)
next
  fix schema issues
  assume a: "(nm, schema) \<in> set
          [(utf16 ''get_match'', GetMatchSchema),
           (utf16 ''get_player'', GetPlayerSchema),
           (utf16 ''get_player_matches'', GetPlayerMatchesSchema),
           (utf16 ''get_player_recent_matches'', GetPlayerSchema),
           (utf16 ''get_player_heroes'', GetPlayerSchema),
           (utf16 ''search_players'', SearchPlayersSchema),
           (utf16 ''natural_query'', NaturalQuerySchema)]
        \<and> schema args = Inl issues"
  have "fst (try_block h client nm args st) = Inl (ZodError issues)"
    using a by (intro try_block_schema_violation [of nm schema]) simp_all
  then have "fst (call_tool h client nm args st) =
      \<lparr>content = [TextContent (error_text h (to_MCPError h (ZodError issues)))],
       isError = Some True\<rparr>"
    by (rule call_tool_thrown)
  then show "fst (call_tool h client nm args st) =
          \<lparr>content =
             [TextContent (utf16 ''Error: '' @ utf16 ''Invalid tool arguments'' @
                (if env h ''NODE_ENV'' = Some (utf16 ''development'')
                 then [10, 10] @ utf16 ''Details: '' @ stringify_details h (ZodDetails issues)
                 else []))],
           isError = Some True\<rparr>"
    by (simp add: error_text_def to_MCPError_def new_ValidationError_def new_MCPError_def)
next
  fix r e
  assume a: "requests (snd (call_tool h client nm args st)) = requests st @ [r]
        \<and> axios_get h (req_url r) (req_params r) (req_timeout r) (req_user_agent r) = Inl e"
  then have "outcome_of h r = Inl e"
    by (simp add: outcome_of_def)
  with a have "fst (call_tool h client nm args st) =
      \<lparr>content = [TextContent (error_text h (rejection_error h client e))],
       isError = Some True\<rparr>"
    by (intro call_tool_rejected [of h client nm args st r]) simp_all
  then show "fst (call_tool h client nm args st) =
          \<lparr>content =
             [TextContent (utf16 ''Error: '' @
                (if err_code e = Some (utf16 ''ECONNABORTED'')
                    \<or> includes_str (err_message e) (utf16 ''timeout'')
                 then utf16 ''OpenDota API request timed out after ''
                        @ number_to_string h (timeout client) @ utf16 ''ms''
                 else utf16 ''OpenDota API request failed: '' @ err_message e) @
                (if env h ''NODE_ENV'' = Some (utf16 ''development'')
                 then [10, 10] @ utf16 ''Details: '' @
                   stringify_details h
                     (if err_code e = Some (utf16 ''ECONNABORTED'')
                         \<or> includes_str (err_message e) (utf16 ''timeout'')
                      then TimeoutDetails e
                      else ApiDetails (err_code e) (map_option data (err_response e)) e)
                 else []))],
           isError = Some True\<rparr>"
    by (simp add: error_text_def rejection_error_def)
next
  assume "nm \<notin> set
         [utf16 ''get_match'', utf16 ''get_player'', utf16 ''get_player_matches'',
          utf16 ''get_player_recent_matches'', utf16 ''get_player_heroes'',
          utf16 ''search_players'', utf16 ''get_heroes'', utf16 ''get_pro_matches'',
          utf16 ''natural_query'']"
  then have "fst (try_block h client nm args st) =
      Inl (Other (PlainError (utf16 ''Unknown tool: '' @ nm)))"
    by (simp add: try_block_unknown_tool)
  then have "fst (call_tool h client nm args st) =
      \<lparr>content = [TextContent (error_text h
          (to_MCPError h (Other (PlainError (utf16 ''Unknown tool: '' @ nm)))))],
       isError = Some True\<rparr>"
    by (rule call_tool_thrown)
  then show "fst (call_tool h client nm args st) =
          \<lparr>content =
             [TextContent (utf16 ''Error: '' @ utf16 ''Unknown tool: '' @ nm @
                (if env h ''NODE_ENV'' = Some (utf16 ''development'')
                 then [10, 10] @ utf16 ''Details: '' @
                   stringify_details h
                     (OriginalError (PlainError (utf16 ''Unknown tool: '' @ nm)))
                 else []))],
           isError = Some True\<rparr>"
    by (simp add: error_text_def to_MCPError_def new_MCPError_def)
qed

text \<open>
  Example runs: \<open>get_player\<close> without its \<open>account_id\<close>; \<open>get_heroes\<close> when the upstream
  answers 404, and when it does not answer in time (in development, with the details the
  runtime prints); the name \<open>get_public_matches\<close>, which is no tool of the server.
\<close>

lemma unknown_tool_throws:
  "try_block h client (utf16 ''get_public_matches'') args st =
     (Inl (Other (PlainError (utf16 ''Unknown tool: '' @ utf16 ''get_public_matches''))), st)"
  by (simp add: try_block_def utf16_def)

lemma get_heroes_request:
  "\<exists>r. requests (snd (call_tool h client (utf16 ''get_heroes'') args initial_state))
         = requests initial_state @ [r]"
proof -
  have "utf16 ''get_heroes'' \<notin> set
     [utf16 ''get_match'', utf16 ''get_player'', utf16 ''get_player_matches'',
      utf16 ''get_player_recent_matches'', utf16 ''get_player_heroes'',
      utf16 ''search_players'']"
    by (simp add: utf16_def)
  then have "try_block h client (utf16 ''get_heroes'') args initial_state
      = reply_with h [] (getHeroes h client initial_state)"
    by (simp add: try_block_def)
  then show ?thesis
    by (simp add: call_tool_requests reply_with_snd client_methods_request)
qed

theorem thrown_error_is_reported_witness:
  "(\<forall>rt. fst (call_tool (stub_host_404 rt) stub_client (utf16 ''get_player'')
             (Some (JObj [])) initial_state) =
      \<lparr>content = [TextContent (utf16 ''Error: Invalid tool arguments'')],
       isError = Some True\<rparr>)
   \<and> (\<forall>rt. fst (call_tool (stub_host_404 rt) stub_client (utf16 ''get_heroes'') None
             initial_state) =
      \<lparr>content = [TextContent (utf16
         ''Error: OpenDota API request failed: Request failed with status code 404'')],
       isError = Some True\<rparr>)
   \<and> (\<forall>rt. fst (call_tool (in_development (stub_host_timeout rt)) stub_client
             (utf16 ''get_heroes'') None initial_state) =
      \<lparr>content = [TextContent (utf16 ''Error: OpenDota API request timed out after ''
         @ number_to_string rt (Finite 30000) @ utf16 ''ms'' @ [10, 10] @ utf16 ''Details: ''
         @ stringify_details rt
             (TimeoutDetails
                \<lparr>err_code = Some (utf16 ''ECONNABORTED''),
                 err_message = utf16 ''timeout of 30000ms exceeded'',
                 err_response = None\<rparr>))],
       isError = Some True\<rparr>)
   \<and> (\<forall>rt. call_tool (stub_host_404 rt) stub_client (utf16 ''get_public_matches'') None
             initial_state =
      (\<lparr>content = [TextContent (utf16 ''Error: Unknown tool: get_public_matches'')],
        isError = Some True\<rparr>,
       \<lparr>heap = (\<lambda>a. None), next_ref = 0, requests = [],
        tool_log =
          [\<lparr>toolName = utf16 ''get_public_matches'', arguments = None, success = False,
            error = Some
              \<lparr>name = utf16 ''MCPError'',
               message = utf16 ''Unknown tool: get_public_matches'',
               code = utf16 ''TOOL_EXECUTION_ERROR'', statusCode = 500,
               details = Some (OriginalError
                 (PlainError (utf16 ''Unknown tool: get_public_matches'')))\<rparr>\<rparr>]\<rparr>))
   \<and> (\<forall>rt. fst (call_tool (in_development (stub_host_404 rt)) stub_client
             (utf16 ''get_public_matches'') None initial_state) =
      \<lparr>content = [TextContent (utf16 ''Error: Unknown tool: get_public_matches''
         @ [10, 10] @ utf16 ''Details: ''
         @ stringify_details rt
             (OriginalError (PlainError (utf16 ''Unknown tool: get_public_matches''))))],
       isError = Some True\<rparr>)"
proof (intro conjI allI)
  fix rt
  let ?h = "stub_host_404 rt"
  have s: "GetPlayerSchema (Some (JObj [])) = Inl [InvalidType [''account_id''] ''number'' ''undefined'']"
    by (simp add: GetPlayerSchema_def z_object_def z_number_def issues_of_def parsed_type_def)
  have m: "(utf16 ''get_player'', GetPlayerSchema) \<in> set
          [(utf16 ''get_match'', GetMatchSchema),
           (utf16 ''get_player'', GetPlayerSchema),
           (utf16 ''get_player_matches'', GetPlayerMatchesSchema),
           (utf16 ''get_player_recent_matches'', GetPlayerSchema),
           (utf16 ''get_player_heroes'', GetPlayerSchema),
           (utf16 ''search_players'', SearchPlayersSchema),
           (utf16 ''natural_query'', NaturalQuerySchema)]"
    by simp
  from thrown_error_is_reported
         [of ?h stub_client "utf16 ''get_player''" "Some (JObj [])" initial_state] m s
  have "fst (call_tool ?h stub_client (utf16 ''get_player'') (Some (JObj [])) initial_state) =
      \<lparr>content =
         [TextContent (utf16 ''Error: '' @ utf16 ''Invalid tool arguments'' @
            (if env ?h ''NODE_ENV'' = Some (utf16 ''development'')
             then [10, 10] @ utf16 ''Details: '' @ stringify_details ?h
               (ZodDetails [InvalidType [''account_id''] ''number'' ''undefined''])
             else []))],
       isError = Some True\<rparr>"
    by blast
  then show "fst (call_tool ?h stub_client (utf16 ''get_player'') (Some (JObj []))
      initial_state) =
      \<lparr>content = [TextContent (utf16 ''Error: Invalid tool arguments'')],
       isError = Some True\<rparr>"
    by (simp add: stub_host_404_def utf16_def)
next
  fix rt
  let ?h = "stub_host_404 rt"
  obtain r where r: "requests (snd (call_tool ?h stub_client (utf16 ''get_heroes'') None
      initial_state)) = requests initial_state @ [r]"
    using get_heroes_request by blast
  have o: "axios_get ?h (req_url r) (req_params r) (req_timeout r) (req_user_agent r)
      = Inl error_404"
    by (simp add: stub_host_404_def)
  have c: "err_code error_404 \<noteq> Some (utf16 ''ECONNABORTED'')"
    by (simp add: error_404_def utf16_def)
  have i: "\<not> includes_str (err_message error_404) (utf16 ''timeout'')"
    by (simp add: error_404_def utf16_def)
  from thrown_error_is_reported
         [of ?h stub_client "utf16 ''get_heroes''" None initial_state] r o
  have "fst (call_tool ?h stub_client (utf16 ''get_heroes'') None initial_state) =
      \<lparr>content =
         [TextContent (utf16 ''Error: '' @
            (if err_code error_404 = Some (utf16 ''ECONNABORTED'')
                \<or> includes_str (err_message error_404) (utf16 ''timeout'')
             then utf16 ''OpenDota API request timed out after ''
                    @ number_to_string ?h (timeout stub_client) @ utf16 ''ms''
             else utf16 ''OpenDota API request failed: '' @ err_message error_404) @
            (if env ?h ''NODE_ENV'' = Some (utf16 ''development'')
             then [10, 10] @ utf16 ''Details: '' @
               stringify_details ?h
                 (if err_code error_404 = Some (utf16 ''ECONNABORTED'')
                     \<or> includes_str (err_message error_404) (utf16 ''timeout'')
                  then TimeoutDetails error_404
                  else ApiDetails (err_code error_404)
                         (map_option data (err_response error_404)) error_404)
             else []))],
       isError = Some True\<rparr>"
    by blast
  then show "fst (call_tool ?h stub_client (utf16 ''get_heroes'') None initial_state) =
      \<lparr>content = [TextContent (utf16
         ''Error: OpenDota API request failed: Request failed with status code 404'')],
       isError = Some True\<rparr>"
    using c i by (simp add: stub_host_404_def) (simp add: error_404_def utf16_def)
next
  fix rt
  let ?h = "in_development (stub_host_timeout rt)"
  obtain r where r: "requests (snd (call_tool ?h stub_client (utf16 ''get_heroes'') None
      initial_state)) = requests initial_state @ [r]"
    using get_heroes_request by blast
  have o: "axios_get ?h (req_url r) (req_params r) (req_timeout r) (req_user_agent r)
      = Inl error_timeout"
    by (simp add: stub_host_timeout_def in_development_def)
  have c: "err_code error_timeout = Some (utf16 ''ECONNABORTED'')"
    by (simp add: error_timeout_def)
  from thrown_error_is_reported
         [of ?h stub_client "utf16 ''get_heroes''" None initial_state] r o
  have "fst (call_tool ?h stub_client (utf16 ''get_heroes'') None initial_state) =
      \<lparr>content =
         [TextContent (utf16 ''Error: '' @
            (if err_code error_timeout = Some (utf16 ''ECONNABORTED'')
                \<or> includes_str (err_message error_timeout) (utf16 ''timeout'')
             then utf16 ''OpenDota API request timed out after ''
                    @ number_to_string ?h (timeout stub_client) @ utf16 ''ms''
             else utf16 ''OpenDota API request failed: '' @ err_message error_timeout) @
            (if env ?h ''NODE_ENV'' = Some (utf16 ''development'')
             then [10, 10] @ utf16 ''Details: '' @
               stringify_details ?h
                 (if err_code error_timeout = Some (utf16 ''ECONNABORTED'')
                     \<or> includes_str (err_message error_timeout) (utf16 ''timeout'')
                  then TimeoutDetails error_timeout
                  else ApiDetails (err_code error_timeout)
                         (map_option data (err_response error_timeout)) error_timeout)
             else []))],
       isError = Some True\<rparr>"
    by blast
  then show "fst (call_tool ?h stub_client (utf16 ''get_heroes'') None initial_state) =
      \<lparr>content = [TextContent (utf16 ''Error: OpenDota API request timed out after ''
         @ number_to_string rt (Finite 30000) @ utf16 ''ms'' @ [10, 10] @ utf16 ''Details: ''
         @ stringify_details rt
             (TimeoutDetails
                \<lparr>err_code = Some (utf16 ''ECONNABORTED''),
                 err_message = utf16 ''timeout of 30000ms exceeded'',
                 err_response = None\<rparr>))],
       isError = Some True\<rparr>"
    using c
    by (simp add: stub_host_timeout_def in_development_def stub_client_def)
       (simp add: error_timeout_def utf16_def)
next
  fix rt
  let ?h = "stub_host_404 rt"
  from thrown_error_is_reported
         [of ?h stub_client "utf16 ''get_public_matches''" None initial_state]
       unknown_tool_throws [of ?h stub_client None initial_state]
  have "call_tool ?h stub_client (utf16 ''get_public_matches'') None initial_state =
        (\<lparr>content =
            [TextContent (utf16 ''Error: '' @ message (to_MCPError ?h
                (Other (PlainError (utf16 ''Unknown tool: '' @ utf16 ''get_public_matches'')))) @
               (if env ?h ''NODE_ENV'' = Some (utf16 ''development'') then
                  (case details (to_MCPError ?h
                     (Other (PlainError (utf16 ''Unknown tool: '' @ utf16 ''get_public_matches''))))
                   of None \<Rightarrow> []
                   | Some d \<Rightarrow> [10, 10] @ utf16 ''Details: '' @ stringify_details ?h d)
                else []))],
          isError = Some True\<rparr>,
         initial_state\<lparr>tool_log := tool_log initial_state @
               [\<lparr>toolName = utf16 ''get_public_matches'', arguments = None, success = False,
                 error = Some (to_MCPError ?h
                   (Other (PlainError
                      (utf16 ''Unknown tool: '' @ utf16 ''get_public_matches''))))\<rparr>]\<rparr>)
      \<and> to_MCPError ?h
          (Other (PlainError (utf16 ''Unknown tool: '' @ utf16 ''get_public_matches''))) =
          \<lparr>name = utf16 ''MCPError'',
           message = utf16 ''Unknown tool: '' @ utf16 ''get_public_matches'',
           code = utf16 ''TOOL_EXECUTION_ERROR'', statusCode = 500,
           details = Some (OriginalError
             (PlainError (utf16 ''Unknown tool: '' @ utf16 ''get_public_matches'')))\<rparr>"
    by simp
  then show "call_tool ?h stub_client (utf16 ''get_public_matches'') None initial_state =
      (\<lparr>content = [TextContent (utf16 ''Error: Unknown tool: get_public_matches'')],
        isError = Some True\<rparr>,
       \<lparr>heap = (\<lambda>a. None), next_ref = 0, requests = [],
        tool_log =
          [\<lparr>toolName = utf16 ''get_public_matches'', arguments = None, success = False,
            error = Some
              \<lparr>name = utf16 ''MCPError'',
               message = utf16 ''Unknown tool: get_public_matches'',
               code = utf16 ''TOOL_EXECUTION_ERROR'', statusCode = 500,
               details = Some (OriginalError
                 (PlainError (utf16 ''Unknown tool: get_public_matches'')))\<rparr>\<rparr>]\<rparr>)"
    by (simp add: stub_host_404_def initial_state_def utf16_def)
next
  fix rt
  let ?h = "in_development (stub_host_404 rt)"
  have n: "utf16 ''get_public_matches'' \<notin> set
         [utf16 ''get_match'', utf16 ''get_player'', utf16 ''get_player_matches'',
          utf16 ''get_player_recent_matches'', utf16 ''get_player_heroes'',
          utf16 ''search_players'', utf16 ''get_heroes'', utf16 ''get_pro_matches'',
          utf16 ''natural_query'']"
    by (simp add: utf16_def)
  from thrown_error_is_reported
         [of ?h stub_client "utf16 ''get_public_matches''" None initial_state] n
  have "fst (call_tool ?h stub_client (utf16 ''get_public_matches'') None initial_state) =
          \<lparr>content =
             [TextContent (utf16 ''Error: '' @ utf16 ''Unknown tool: ''
                @ utf16 ''get_public_matches'' @
                (if env ?h ''NODE_ENV'' = Some (utf16 ''development'')
                 then [10, 10] @ utf16 ''Details: '' @
                   stringify_details ?h
                     (OriginalError (PlainError
                        (utf16 ''Unknown tool: '' @ utf16 ''get_public_matches'')))
                 else []))],
           isError = Some True\<rparr>"
    by blast
  then show "fst (call_tool ?h stub_client (utf16 ''get_public_matches'') None
      initial_state) =
      \<lparr>content = [TextContent (utf16 ''Error: Unknown tool: get_public_matches''
         @ [10, 10] @ utf16 ''Details: ''
         @ stringify_details rt
             (OriginalError (PlainError (utf16 ''Unknown tool: get_public_matches''))))],
       isError = Some True\<rparr>"
    by (simp add: stub_host_404_def in_development_def utf16_def)
qed

end
